theory Spec2Isabelle
  imports Complex_Main "HOL-Library.Sublist"
begin

section \<open>Python values and library functions used by \<^verbatim>\<open>linked_to_epstein.py\<close>\<close>

text \<open>
  A Python \<^verbatim>\<open>str\<close> is modelled as a \<^typ>\<open>string\<close>; every \<^typ>\<open>char\<close> stands for
  one code point below 256.  A value that may be Python's \<^verbatim>\<open>None\<close> is a
  \<^typ>\<open>string option\<close>.  Exceptions are values of \<open>py_error\<close>, and a function that can
  raise returns \<open>py_error + 'a\<close>.
\<close>

datatype py_error =
    AttributeError    \<comment> \<open>a method called on \<^verbatim>\<open>None\<close>\<close>
  | CsvError          \<comment> \<open>\<^verbatim>\<open>_csv.Error\<close>\<close>
  | FileNotFoundError

definition LF :: char where "LF = CHR 0x0A"
definition CR :: char where "CR = CHR 0x0D"

subsection \<open>\<^verbatim>\<open>str\<close> methods\<close>

text \<open>\<^verbatim>\<open>str.isspace\<close> on one character (code points below 256).\<close>

definition isspace :: "char \<Rightarrow> bool" where
  "isspace c = (of_char c \<in> {9, 10, 11, 12, 13, 28, 29, 30, 31, 32, 133, 160 :: nat})"

text \<open>\<^verbatim>\<open>s.strip()\<close>: leading and trailing whitespace removed.\<close>

definition strip :: "string \<Rightarrow> string" where
  "strip s = rev (dropWhile isspace (rev (dropWhile isspace s)))"

text \<open>
  The line boundaries of \<^verbatim>\<open>str.splitlines\<close> (code points below 256); the pair CR LF
  counts as one boundary.
\<close>

definition is_linebreak :: "char \<Rightarrow> bool" where
  "is_linebreak c = (of_char c \<in> {10, 11, 12, 13, 28, 29, 30, 133 :: nat})"

fun splitlines_from :: "string \<Rightarrow> string \<Rightarrow> string list" where
  "splitlines_from cur [] = (if cur = [] then [] else [cur])"
| "splitlines_from cur [c] = (if is_linebreak c then [cur] else [cur @ [c]])"
| "splitlines_from cur (c # d # cs) =
     (if c = CR \<and> d = LF then cur # splitlines_from [] cs
      else if is_linebreak c then cur # splitlines_from [] (d # cs)
      else splitlines_from (cur @ [c]) (d # cs))"

definition splitlines :: "string \<Rightarrow> string list" where
  "splitlines s = splitlines_from [] s"

text \<open>
  \<^verbatim>\<open>s.replace(old, new)\<close>: every non-overlapping occurrence of \<open>old\<close>, scanning from the
  left.  With an empty \<open>old\<close>, Python inserts \<open>new\<close> before every character and at the end.
\<close>

fun replace_scan :: "string \<Rightarrow> string \<Rightarrow> string \<Rightarrow> string" where
  "replace_scan old new [] = []"
| "replace_scan old new (c # cs) =
     (if prefix old (c # cs) then new @ replace_scan old new (drop (length old - 1) cs)
      else c # replace_scan old new cs)"

definition replace :: "string \<Rightarrow> string \<Rightarrow> string \<Rightarrow> string" where
  "replace s old new =
     (if old = [] then new @ concat (map (\<lambda>c. c # new) s) else replace_scan old new s)"

text \<open>\<^verbatim>\<open>s.rstrip('/')\<close>, \<^verbatim>\<open>s.startswith('/')\<close> and \<^verbatim>\<open>sep.join(xs)\<close>.\<close>

definition rstrip_slash :: "string \<Rightarrow> string" where
  "rstrip_slash s = rev (dropWhile (\<lambda>c. c = CHR ''/'') (rev s))"

definition startswith :: "string \<Rightarrow> string \<Rightarrow> bool" where
  "startswith s p = prefix p s"

fun join :: "string \<Rightarrow> string list \<Rightarrow> string" where
  "join sep [] = []"
| "join sep [x] = x"
| "join sep (x # y # xs) = x @ sep @ join sep (y # xs)"

subsection \<open>Formatting integers\<close>

definition digit_char :: "nat \<Rightarrow> char" where
  "digit_char d = ''0123456789'' ! d"

function str_nat :: "nat \<Rightarrow> string" where
  "str_nat n = (if n < 10 then [digit_char n] else str_nat (n div 10) @ [digit_char (n mod 10)])"
  by pat_completeness auto
termination
  by (relation "measure id") auto

declare str_nat.simps [simp del]

text \<open>\<^verbatim>\<open>str(i)\<close> and \<^verbatim>\<open>f"{i}"\<close> for an \<^verbatim>\<open>int\<close>.\<close>

definition str_int :: "int \<Rightarrow> string" where
  "str_int i = (if i < 0 then CHR ''-'' # str_nat (nat (- i)) else str_nat (nat i))"

text \<open>
  \<^verbatim>\<open>f"{i:,}"\<close>: the digits in groups of three from the right, separated by commas;
  \<^verbatim>\<open>f"{i:6,}"\<close> pads the result on the left with spaces to width 6.
\<close>

fun group3 :: "string \<Rightarrow> string" where
  "group3 (a # b # c # d # ds) = a # b # c # CHR '','' # group3 (d # ds)"
| "group3 ds = ds"

definition format_comma :: "int \<Rightarrow> string" where
  "format_comma i =
     (if i < 0 then ''-'' else '''') @ rev (group3 (rev (str_nat (nat \<bar>i\<bar>))))"

definition rjust :: "nat \<Rightarrow> string \<Rightarrow> string" where
  "rjust w s = replicate (w - length s) CHR '' '' @ s"

subsection \<open>\<^verbatim>\<open>html.escape\<close> and \<^verbatim>\<open>urllib.parse.quote\<close>\<close>

text \<open>
  \<^verbatim>\<open>html.escape(s)\<close> with its default \<^verbatim>\<open>quote=True\<close> is five calls of \<^verbatim>\<open>replace\<close>, the
  ampersand first.
\<close>

definition html_escape :: "string \<Rightarrow> string" where
  \<open>html_escape s =
     replace (replace (replace (replace (replace s ''&'' ''&amp;'') ''<'' ''&lt;'')
       ''>'' ''&gt;'') [CHR 0x22] ''&quot;'') [CHR 0x27] ''&#x27;''\<close>

text \<open>
  \<^verbatim>\<open>urllib.parse.quote(s, safe='/')\<close>: the text is encoded as UTF-8 (two bytes for a code
  point from 128 to 255), and every byte that is not an ASCII letter, a digit or one of
  \<^verbatim>\<open>_.-~/\<close> becomes \<^verbatim>\<open>%XX\<close> with upper-case hexadecimal digits.  The safe bytes
  are ASCII, so a character is either kept or replaced by the escapes of its bytes.
\<close>

definition utf8_encode :: "char \<Rightarrow> nat list" where
  "utf8_encode c =
     (let n = of_char c in if n < 128 then [n] else [192 + n div 64, 128 + n mod 64])"

definition hex_digit :: "nat \<Rightarrow> char" where
  "hex_digit d = ''0123456789ABCDEF'' ! d"

definition percent :: "nat \<Rightarrow> string" where
  "percent b = [CHR ''%'', hex_digit (b div 16), hex_digit (b mod 16)]"

definition always_safe :: "char \<Rightarrow> bool" where
  "always_safe c =
     (let b = of_char c :: nat in
        (65 \<le> b \<and> b \<le> 90) \<or> (97 \<le> b \<and> b \<le> 122) \<or> (48 \<le> b \<and> b \<le> 57)
        \<or> b \<in> {95, 46, 45, 126})"

definition quote_char :: "char \<Rightarrow> string" where
  "quote_char c =
     (if always_safe c \<or> c = CHR ''/'' then [c] else concat (map percent (utf8_encode c)))"

definition quote :: "string \<Rightarrow> string" where
  "quote s = concat (map quote_char s)"

subsection \<open>\<^verbatim>\<open>list.sort(key=..., reverse=True)\<close>\<close>

text \<open>
  Python sorts stably; with \<^verbatim>\<open>reverse=True\<close> the list is reversed, sorted stably in
  ascending order of the key, and reversed again, so that elements with equal keys keep
  their original order.
\<close>

definition sort_reverse :: "('a \<Rightarrow> int) \<Rightarrow> 'a list \<Rightarrow> 'a list" where
  "sort_reverse key xs = rev (sort_key key (rev xs))"

subsection \<open>Reading a text file\<close>

text \<open>
  A file opened in text mode with the default \<^verbatim>\<open>newline=None\<close> translates CR LF and a
  lone CR to LF.  Iterating over the file yields its lines, each with its final LF (the
  last line may lack one); \<^verbatim>\<open>f.read()\<close> returns what has not been read yet.  The model
  starts from the decoded text (after \<^verbatim>\<open>utf-8-sig\<close> has removed a byte-order mark).
\<close>

fun universal_newlines :: "string \<Rightarrow> string" where
  "universal_newlines [] = []"
| "universal_newlines [c] = [if c = CR then LF else c]"
| "universal_newlines (c # d # cs) =
     (if c = CR \<and> d = LF then LF # universal_newlines cs
      else if c = CR then LF # universal_newlines (d # cs)
      else c # universal_newlines (d # cs))"

fun readlines_from :: "string \<Rightarrow> string \<Rightarrow> string list" where
  "readlines_from cur [] = (if cur = [] then [] else [cur])"
| "readlines_from cur (c # cs) =
     (if c = LF then (cur @ [LF]) # readlines_from [] cs else readlines_from (cur @ [c]) cs)"

definition file_lines :: "string \<Rightarrow> string list" where
  "file_lines text = readlines_from [] (universal_newlines text)"

subsection \<open>\<^verbatim>\<open>csv.reader\<close> and \<^verbatim>\<open>csv.DictReader\<close>\<close>

text \<open>
  The reader of the standard library with its default dialect: delimiter comma, quote
  character \<^verbatim>\<open>"\<close> doubled inside a quoted field, no escape character, not strict, and a
  field limit of 131072 characters.  It is a state machine fed one character at a time,
  with an end-of-line signal (\<open>None\<close>) after every line of its input; \<open>saved\<close> holds the
  fields of the record read so far and \<open>field\<close> the characters of the current one.
\<close>

datatype csv_state =
  START_RECORD | START_FIELD | IN_FIELD | IN_QUOTED_FIELD | QUOTE_IN_QUOTED_FIELD | EAT_CRNL

record reader =
  state :: csv_state
  saved :: "string list"
  field :: string

definition parse_reset :: reader where
  "parse_reset = \<lparr>state = START_RECORD, saved = [], field = []\<rparr>"

definition parse_save_field :: "reader \<Rightarrow> reader" where
  "parse_save_field r = r\<lparr>saved := saved r @ [field r], field := []\<rparr>"

definition parse_add_char :: "reader \<Rightarrow> char \<Rightarrow> py_error + reader" where
  "parse_add_char r c =
     (if int (length (field r)) \<ge> 131072 then Inl CsvError else Inr (r\<lparr>field := field r @ [c]\<rparr>))"

definition is_newline :: "char option \<Rightarrow> bool" where
  "is_newline c = (c = Some LF \<or> c = Some CR)"

definition end_of_record :: "reader \<Rightarrow> char option \<Rightarrow> py_error + reader" where
  "end_of_record r c =
     Inr ((parse_save_field r)\<lparr>state := (if c = None then START_RECORD else EAT_CRNL)\<rparr>)"

definition add_char_then :: "csv_state \<Rightarrow> reader \<Rightarrow> char \<Rightarrow> py_error + reader" where
  "add_char_then st r c =
     (case parse_add_char r c of Inl e \<Rightarrow> Inl e | Inr r' \<Rightarrow> Inr (r'\<lparr>state := st\<rparr>))"

definition start_field :: "reader \<Rightarrow> char option \<Rightarrow> py_error + reader" where
  \<open>start_field r c =
     (case c of
        None \<Rightarrow> end_of_record r c
      | Some ch \<Rightarrow>
          if is_newline c then end_of_record r c
          else if ch = CHR 0x22 then Inr (r\<lparr>state := IN_QUOTED_FIELD\<rparr>)
          else if ch = CHR '','' then Inr ((parse_save_field r)\<lparr>state := START_FIELD\<rparr>)
          else add_char_then IN_FIELD r ch)\<close>

definition parse_process_char :: "reader \<Rightarrow> char option \<Rightarrow> py_error + reader" where
  \<open>parse_process_char r c =
     (case state r of
        START_RECORD \<Rightarrow>
          if c = None then Inr r
          else if is_newline c then Inr (r\<lparr>state := EAT_CRNL\<rparr>)
          else start_field r c
      | START_FIELD \<Rightarrow> start_field r c
      | IN_FIELD \<Rightarrow>
          (case c of
             None \<Rightarrow> end_of_record r c
           | Some ch \<Rightarrow>
               if is_newline c then end_of_record r c
               else if ch = CHR '','' then Inr ((parse_save_field r)\<lparr>state := START_FIELD\<rparr>)
               else add_char_then IN_FIELD r ch)
      | IN_QUOTED_FIELD \<Rightarrow>
          (case c of
             None \<Rightarrow> Inr r
           | Some ch \<Rightarrow>
               if ch = CHR 0x22 then Inr (r\<lparr>state := QUOTE_IN_QUOTED_FIELD\<rparr>)
               else add_char_then IN_QUOTED_FIELD r ch)
      | QUOTE_IN_QUOTED_FIELD \<Rightarrow>
          (case c of
             None \<Rightarrow> end_of_record r c
           | Some ch \<Rightarrow>
               if ch = CHR 0x22 then add_char_then IN_QUOTED_FIELD r ch
               else if ch = CHR '','' then Inr ((parse_save_field r)\<lparr>state := START_FIELD\<rparr>)
               else if is_newline c then end_of_record r c
               else add_char_then IN_FIELD r ch)
      | EAT_CRNL \<Rightarrow>
          if is_newline c then Inr r
          else if c = None then Inr (r\<lparr>state := START_RECORD\<rparr>)
          else Inl CsvError)\<close>

text \<open>One line of input: its characters, then the end-of-line signal.\<close>

fun parse_chars :: "reader \<Rightarrow> string \<Rightarrow> py_error + reader" where
  "parse_chars r [] = parse_process_char r None"
| "parse_chars r (c # cs) =
     (case parse_process_char r (Some c) of Inl e \<Rightarrow> Inl e | Inr r' \<Rightarrow> parse_chars r' cs)"

text \<open>
  The records the reader yields for a list of lines, in order.  A record is complete when
  the state is back at \<open>START_RECORD\<close> after a line; at the end of the input a pending
  field (or an open quoted field) is saved as the last record.  An exception ends the
  iteration: it is the last element.
\<close>

fun csv_reader_from :: "reader \<Rightarrow> string list \<Rightarrow> (py_error + string list) list" where
  "csv_reader_from r [] =
     (if field r \<noteq> [] \<or> state r = IN_QUOTED_FIELD then [Inr (saved (parse_save_field r))]
      else [])"
| "csv_reader_from r (line # lines) =
     (case parse_chars r line of
        Inl e \<Rightarrow> [Inl e]
      | Inr r' \<Rightarrow>
          if state r' \<noteq> START_RECORD then csv_reader_from r' lines
          else Inr (saved r') # csv_reader_from parse_reset lines)"

definition csv_reader :: "string list \<Rightarrow> (py_error + string list) list" where
  "csv_reader lines = csv_reader_from parse_reset lines"

text \<open>
  A row of \<^verbatim>\<open>csv.DictReader\<close>: a dictionary from the field names to the cells of the
  record, later duplicates of a name overwriting earlier ones; a field name beyond the end
  of a short record is present with the value \<^verbatim>\<open>None\<close> (the default \<^verbatim>\<open>restval\<close>).  The
  extra cells of a long record are stored under the key \<^verbatim>\<open>None\<close>, which no string key
  reads; they are left out.
\<close>

type_synonym row = "string \<rightharpoonup> string option"

definition dict_row :: "string list \<Rightarrow> string list \<Rightarrow> row" where
  "dict_row fieldnames cells =
     fold (\<lambda>k d. d(k \<mapsto> None)) (drop (length cells) fieldnames)
       (fold (\<lambda>(k, v) d. d(k \<mapsto> Some v)) (zip fieldnames cells) Map.empty)"

text \<open>\<^verbatim>\<open>row.get(key, '')\<close>: the value stored under the key, the default when it is absent.\<close>

definition get :: "row \<Rightarrow> string \<Rightarrow> string \<Rightarrow> string option" where
  "get d key dflt = (case d key of None \<Rightarrow> Some dflt | Some v \<Rightarrow> v)"

text \<open>\<^verbatim>\<open>v.strip()\<close> on a value that may be \<^verbatim>\<open>None\<close>.\<close>

definition strip_value :: "string option \<Rightarrow> py_error + string" where
  "strip_value v = (case v of None \<Rightarrow> Inl AttributeError | Some s \<Rightarrow> Inr (strip s))"

section \<open>The contact extractor: \<^verbatim>\<open>parse_linkedin_contacts\<close>\<close>

record contact =
  first_name :: string
  last_name :: string
  full_name :: string
  company :: "string option"
  position :: "string option"

text \<open>The loop that looks for the header line; it leaves the file at the line after it.\<close>

fun find_header :: "string list \<Rightarrow> string option \<times> string list" where
  "find_header [] = (None, [])"
| "find_header (line # rest) =
     (if sublist ''First Name'' line \<and> sublist ''Last Name'' line then (Some line, rest)
      else find_header rest)"

text \<open>
  The body of the loop over the rows (lines 54 to 65): \<open>Inr None\<close> when the row adds no
  contact.
\<close>

definition row_contact :: "row \<Rightarrow> py_error + contact option" where
  "row_contact d =
     (case strip_value (get d ''First Name'' '''') of
        Inl e \<Rightarrow> Inl e
      | Inr fname \<Rightarrow>
          (case strip_value (get d ''Last Name'' '''') of
             Inl e \<Rightarrow> Inl e
           | Inr lname \<Rightarrow>
               if fname \<noteq> [] \<and> lname \<noteq> [] then
                 Inr (Some \<lparr>first_name = fname, last_name = lname,
                             full_name = fname @ '' '' @ lname,
                             company = get d ''Company'' '''',
                             position = get d ''Position'' ''''\<rparr>)
               else Inr None))"

text \<open>
  \<^verbatim>\<open>for row in reader\<close>: \<^verbatim>\<open>DictReader\<close> skips empty records and turns every other one
  into a dictionary.
\<close>

fun read_rows ::
  "string list \<Rightarrow> (py_error + string list) list \<Rightarrow> contact list \<Rightarrow> py_error + contact list"
where
  "read_rows fieldnames [] contacts = Inr contacts"
| "read_rows fieldnames (Inl e # records) contacts = Inl e"
| "read_rows fieldnames (Inr cells # records) contacts =
     (if cells = [] then read_rows fieldnames records contacts
      else case row_contact (dict_row fieldnames cells) of
             Inl e \<Rightarrow> Inl e
           | Inr None \<Rightarrow> read_rows fieldnames records contacts
           | Inr (Some c) \<Rightarrow> read_rows fieldnames records (contacts @ [c]))"

text \<open>
  \<^verbatim>\<open>csv.DictReader(lines)\<close> takes the first record as the field names; an input without
  any record has no rows.
\<close>

definition dict_reader_contacts :: "string list \<Rightarrow> py_error + contact list" where
  "dict_reader_contacts lines =
     (case csv_reader lines of
        [] \<Rightarrow> Inr []
      | Inl e # records \<Rightarrow> Inl e
      | Inr fieldnames # records \<Rightarrow> read_rows fieldnames records [])"

text \<open>
  The file system is a map from paths to the decoded text of the files.
\<close>

definition parse_linkedin_contacts ::
  "(string \<rightharpoonup> string) \<Rightarrow> string \<Rightarrow> py_error + contact list"
where
  "parse_linkedin_contacts fs csv_path =
     (case fs csv_path of
        None \<Rightarrow> Inl FileNotFoundError
      | Some text \<Rightarrow>
          (case find_header (file_lines text) of
             (None, rest) \<Rightarrow> Inr []
           | (Some header_line, rest) \<Rightarrow>
               if header_line = [] then Inr []
               else
                 let remaining_content = header_line @ concat rest
                 in dict_reader_contacts (splitlines remaining_content)))"

section \<open>The world outside the program\<close>

text \<open>
  What the program does to the outside is recorded as a trace of events, in order: text
  written to the standard output and to the standard error, HTTP requests, calls of
  \<^verbatim>\<open>time.sleep\<close> and files written.  The world also counts the requests made so far.
\<close>

datatype event =
    Stdout string
  | Stderr string
  | Http_get string
  | Sleep real
  | Write_file string string

text \<open>The events that are calls of \<^verbatim>\<open>time.sleep\<close>.\<close>

definition is_sleep :: "event \<Rightarrow> bool" where
  "is_sleep e = (case e of Sleep d \<Rightarrow> True | _ \<Rightarrow> False)"

record world =
  requests_made :: nat
  trace :: "event list"

definition emit :: "event \<Rightarrow> world \<Rightarrow> world" where
  "emit e w = w\<lparr>trace := trace w @ [e]\<rparr>"

text \<open>\<^verbatim>\<open>print(s)\<close> writes the text and a line feed.\<close>

definition print :: "string \<Rightarrow> world \<Rightarrow> world" where
  "print s w = emit (Stdout (s @ [LF])) w"

definition text_lines :: "string list \<Rightarrow> string" where
  "text_lines ls = concat (map (\<lambda>l. l @ [LF]) ls)"

section \<open>The lookup client: \<^verbatim>\<open>search_epstein_files\<close>\<close>

text \<open>
  The JSON body of a reply, with the fields the program reads; a field that is absent is
  \<open>None\<close>.  A body of another shape is outside the model.  The key \<^verbatim>\<open>hits\<close> of the
  body is the field \<open>api_hits\<close>, the key \<^verbatim>\<open>hits\<close> of the dictionary the lookup returns is
  \<open>search_hits\<close>, and the key \<^verbatim>\<open>hits\<close> of a result is \<open>hits\<close>.
\<close>

record hit =
  content_preview :: "string option"
  content :: "string option"
  file_path :: "string option"

record api_data =
  totalHits :: "int option"
  api_hits :: "hit list option"

record api_response =
  success :: bool
  data :: "api_data option"

text \<open>
  One call of \<^verbatim>\<open>requests.get\<close> followed by \<^verbatim>\<open>raise_for_status\<close> and \<^verbatim>\<open>json\<close> either
  raises a \<^verbatim>\<open>RequestException\<close> (a timeout is one), carrying its message, or yields the
  body.  The remote service is a function of the URL and of the number of requests made
  before.
\<close>

datatype http_outcome = RequestException string | Response api_response

type_synonym remote = "string \<Rightarrow> nat \<Rightarrow> http_outcome"

record search_result =
  total_hits :: int
  search_hits :: "hit list"
  error :: "string option"

definition API_BASE_URL :: string where
  "API_BASE_URL = ''https://analytics.dugganusa.com/api/v1/search''"

definition PDF_BASE_URL :: string where
  "PDF_BASE_URL = ''https://www.justice.gov/epstein/files/''"

definition search_url :: "string \<Rightarrow> string" where
  "search_url name =
     (let quoted_name = [CHR 0x22] @ name @ [CHR 0x22];
          encoded_name = quote quoted_name
      in API_BASE_URL @ ''?q='' @ encoded_name @ ''&indexes=epstein_files'')"

definition warning :: "string \<Rightarrow> string \<Rightarrow> string" where
  "warning name e =
     ''Warning: API request failed for '' @ [CHR 0x27] @ name @ [CHR 0x27] @ '': '' @ e @ [LF]"

text \<open>The loop over \<^verbatim>\<open>range(max_retries)\<close>, with what follows it when it ends.\<close>

fun search_attempts ::
  "remote \<Rightarrow> string \<Rightarrow> int \<Rightarrow> int list \<Rightarrow> world \<Rightarrow> search_result \<times> world"
where
  "search_attempts remote name max_retries [] w =
     (\<lparr>total_hits = 0, search_hits = [], error = None\<rparr>, w)"
| "search_attempts remote name max_retries (attempt # rest) w =
     (let url = search_url name;
          w1 = emit (Http_get url) (w\<lparr>requests_made := requests_made w + 1\<rparr>)
      in case remote url (requests_made w) of
           Response body \<Rightarrow>
             if success body then
               (\<lparr>total_hits =
                   (case data body of None \<Rightarrow> 0
                    | Some d \<Rightarrow> (case totalHits d of None \<Rightarrow> 0 | Some n \<Rightarrow> n)),
                 search_hits =
                   (case data body of None \<Rightarrow> []
                    | Some d \<Rightarrow> (case api_hits d of None \<Rightarrow> [] | Some hs \<Rightarrow> hs)),
                 error = None\<rparr>, w1)
             else (\<lparr>total_hits = 0, search_hits = [], error = None\<rparr>, w1)
         | RequestException e \<Rightarrow>
             if attempt < max_retries - 1 then
               search_attempts remote name max_retries rest (emit (Sleep 1) w1)
             else
               (\<lparr>total_hits = 0, search_hits = [], error = Some e\<rparr>,
                emit (Stderr (warning name e)) w1))"

definition search_epstein_files ::
  "remote \<Rightarrow> string \<Rightarrow> int \<Rightarrow> world \<Rightarrow> search_result \<times> world"
where
  "search_epstein_files remote name max_retries w =
     search_attempts remote name max_retries [0..max_retries - 1] w"

section \<open>The report renderer: \<^verbatim>\<open>generate_html_report\<close>\<close>

text \<open>
  An element of \<^verbatim>\<open>results\<close>, the dictionary \<^verbatim>\<open>main\<close> builds for a contact; the keys it
  shares with a contact carry the prefix \<open>r_\<close>.
\<close>

record result =
  name :: string
  r_first_name :: string
  r_last_name :: string
  r_company :: "string option"
  r_position :: "string option"
  total_mentions :: int
  hits :: "hit list"

text \<open>The document up to the summary (lines 107 to 216), with its two figures.\<close>

definition html_head_lines :: "string list" where
  \<open>html_head_lines =
    [''<!DOCTYPE html>'',
     ''<html lang="en">'',
     ''<head>'',
     ''    <meta charset="UTF-8">'',
     ''    <meta name="viewport" content="width=device-width, initial-scale=1.0">'',
     ''    <title>LinkedIn Contacts in Epstein Files</title>'',
     ''    <style>'',
     ''        * {'',
     ''            box-sizing: border-box;'',
     ''        }'',
     ''        body {'',
     ''            font-family: -apple-system, BlinkMacSystemFont, 'Segoe UI', Roboto, Oxygen, Ubuntu, sans-serif;'',
     ''            line-height: 1.6;'',
     ''            max-width: 1200px;'',
     ''            margin: 0 auto;'',
     ''            padding: 20px;'',
     ''            background-color: #f5f5f5;'',
     ''        }'',
     ''        h1 {'',
     ''            color: #333;'',
     ''            border-bottom: 2px solid #333;'',
     ''            padding-bottom: 10px;'',
     ''        }'',
     ''        .summary {'',
     ''            background: #fff;'',
     ''            padding: 20px;'',
     ''            border-radius: 8px;'',
     ''            margin-bottom: 30px;'',
     ''            box-shadow: 0 2px 4px rgba(0,0,0,0.1);'',
     ''        }'',
     ''        .contact {'',
     ''            background: #fff;'',
     ''            padding: 20px;'',
     ''            margin-bottom: 20px;'',
     ''            border-radius: 8px;'',
     ''            box-shadow: 0 2px 4px rgba(0,0,0,0.1);'',
     ''        }'',
     ''        .contact-header {'',
     ''            display: flex;'',
     ''            justify-content: space-between;'',
     ''            align-items: center;'',
     ''            border-bottom: 1px solid #eee;'',
     ''            padding-bottom: 10px;'',
     ''            margin-bottom: 15px;'',
     ''        }'',
     ''        .contact-name {'',
     ''            font-size: 1.4em;'',
     ''            font-weight: bold;'',
     ''            color: #333;'',
     ''        }'',
     ''        .contact-info {'',
     ''            color: #666;'',
     ''            font-size: 0.9em;'',
     ''        }'',
     ''        .hit-count {'',
     ''            background: #e74c3c;'',
     ''            color: white;'',
     ''            padding: 5px 15px;'',
     ''            border-radius: 20px;'',
     ''            font-weight: bold;'',
     ''        }'',
     ''        .hit {'',
     ''            background: #f9f9f9;'',
     ''            padding: 15px;'',
     ''            margin-bottom: 10px;'',
     ''            border-radius: 4px;'',
     ''            border-left: 3px solid #3498db;'',
     ''        }'',
     ''        .hit-preview {'',
     ''            color: #444;'',
     ''            margin-bottom: 10px;'',
     ''            font-size: 0.95em;'',
     ''        }'',
     ''        .hit-link {'',
     ''            display: inline-block;'',
     ''            color: #3498db;'',
     ''            text-decoration: none;'',
     ''            font-size: 0.85em;'',
     ''        }'',
     ''        .hit-link:hover {'',
     ''            text-decoration: underline;'',
     ''        }'',
     ''        .no-results {'',
     ''            color: #999;'',
     ''            font-style: italic;'',
     ''        }'',
     ''        .footer {'',
     ''            margin-top: 40px;'',
     ''            padding-top: 20px;'',
     ''            border-top: 1px solid #ddd;'',
     ''            text-align: center;'',
     ''            color: #666;'',
     ''            font-size: 0.9em;'',
     ''        }'',
     ''        .footer a {'',
     ''            color: #3498db;'',
     ''            text-decoration: none;'',
     ''        }'',
     ''        .footer a:hover {'',
     ''            text-decoration: underline;'',
     ''        }'',
     ''    </style>'',
     ''</head>'',
     ''<body>'',
     ''    <h1>LinkedIn Contacts in Epstein Files</h1>'',
     '''',
     ''    <div class="summary">'']\<close>

definition html_head :: "string \<Rightarrow> string \<Rightarrow> string" where
  \<open>html_head n_results n_mentioned =
     text_lines html_head_lines
     @ ''        <strong>Total contacts searched:</strong> '' @ n_results @ ''<br>'' @ [LF]
     @ ''        <strong>Contacts with mentions:</strong> '' @ n_mentioned @ [LF]
     @ ''    </div>'' @ [LF]\<close>

text \<open>
  The truth value of a string that may be \<^verbatim>\<open>None\<close>, and \<^verbatim>\<open>d.get(key, '')\<close> for an optional
  field.
\<close>

definition truthy :: "string option \<Rightarrow> bool" where
  "truthy v = (case v of None \<Rightarrow> False | Some s \<Rightarrow> s \<noteq> [])"

definition get_str :: "string option \<Rightarrow> string" where
  "get_str v = (case v of None \<Rightarrow> [] | Some s \<Rightarrow> s)"

text \<open>Lines 242 to 249: the preview, the file path and the link of a hit.\<close>

definition hit_preview :: "hit \<Rightarrow> string" where
  "hit_preview h =
     (if get_str (content_preview h) \<noteq> [] then get_str (content_preview h)
      else take 500 (get_str (content h)))"

definition hit_file_path :: "hit \<Rightarrow> string" where
  "hit_file_path h =
     (let file_path = get_str (file_path h)
      in if file_path \<noteq> [] then replace file_path ''dataset'' ''DataSet'' else file_path)"

definition hit_pdf_url :: "hit \<Rightarrow> string" where
  "hit_pdf_url h =
     (if get_str (file_path h) \<noteq> [] then
        let file_path = replace (get_str (file_path h)) ''dataset'' ''DataSet'';
            base_url = (if startswith file_path ''/'' then rstrip_slash PDF_BASE_URL
                        else PDF_BASE_URL)
        in base_url @ quote file_path
      else [])"

text \<open>Lines 251 to 256: what one hit adds to the document.\<close>

definition hit_link :: "hit \<Rightarrow> string" where
  \<open>hit_link h =
     (if hit_pdf_url h \<noteq> [] then
        ''<a class="hit-link" href="'' @ html_escape (hit_pdf_url h)
        @ ''" target="_blank">View PDF: '' @ html_escape (hit_file_path h) @ ''</a>''
      else [])\<close>

definition hit_block :: "hit \<Rightarrow> string" where
  \<open>hit_block h =
     [LF]
     @ ''        <div class="hit">'' @ [LF]
     @ ''            <div class="hit-preview">'' @ html_escape (hit_preview h) @ ''</div>'' @ [LF]
     @ ''            '' @ hit_link h @ [LF]
     @ ''        </div>'' @ [LF]\<close>

text \<open>Lines 223 to 264: what one result with mentions adds to the document.\<close>

definition contact_info :: "result \<Rightarrow> string list" where
  "contact_info r =
     (if truthy (r_position r) then [html_escape (the (r_position r))] else [])
     @ (if truthy (r_company r) then [html_escape (the (r_company r))] else [])"

definition contact_header :: "result \<Rightarrow> string" where
  \<open>contact_header r =
     [LF]
     @ ''    <div class="contact">'' @ [LF]
     @ ''        <div class="contact-header">'' @ [LF]
     @ ''            <div>'' @ [LF]
     @ ''                <div class="contact-name">'' @ html_escape (name r) @ ''</div>'' @ [LF]
     @ ''                <div class="contact-info">''
     @ (if contact_info r \<noteq> [] then join '' at '' (contact_info r) else [])
     @ ''</div>'' @ [LF]
     @ ''            </div>'' @ [LF]
     @ ''            <div class="hit-count">'' @ format_comma (total_mentions r)
     @ '' mentions</div>'' @ [LF]
     @ ''        </div>'' @ [LF]\<close>

definition no_results :: string where
  \<open>no_results =
     [LF] @ ''        <div class="no-results">Hit details not available</div>'' @ [LF]\<close>

definition contact_block :: "result \<Rightarrow> string" where
  \<open>contact_block r =
     contact_header r
     @ (if hits r \<noteq> [] then fold (\<lambda>hit html. html @ hit_block hit) (hits r) [] else no_results)
     @ [LF] @ ''    </div>'' @ [LF]\<close>

definition html_footer :: string where
  \<open>html_footer =
     [LF]
     @ text_lines
         [''    <div class="footer">'',
          ''        Epstein files indexed by <a href="https://dugganusa.com" target="_blank">DugganUSA.com</a>'',
          ''    </div>'',
          ''</body>'',
          ''</html>'']\<close>

text \<open>The text written to the report: \<^verbatim>\<open>html_content\<close> at line 275.\<close>

definition html_content :: "result list \<Rightarrow> string" where
  "html_content results =
     (let contacts_with_mentions = length (filter (\<lambda>r. total_mentions r > 0) results)
      in fold (\<lambda>result html.
                 if total_mentions result = 0 then html else html @ contact_block result)
           results
           (html_head (str_int (int (length results))) (str_int (int contacts_with_mentions)))
         @ html_footer)"

definition generate_html_report :: "result list \<Rightarrow> string \<Rightarrow> world \<Rightarrow> world" where
  "generate_html_report results output_path w =
     emit (Write_file output_path (html_content results)) w"

section \<open>The program: \<^verbatim>\<open>main\<close>\<close>

record args =
  contacts :: "string option"
  "output" :: string
  min_mentions :: int
  delay :: real

text \<open>The message printed when no contacts file is given (lines 312 to 328).\<close>

definition usage_lines :: "string list" where
  \<open>usage_lines =
    [''No contacts file specified.'',
     '''',
     ''To export your LinkedIn connections:'',
     ''  1. Go to linkedin.com and log in'',
     ''  2. Click your profile icon in the top right'',
     ''  3. Select "Settings & Privacy"'',
     ''  4. Click "Data privacy" in the left sidebar'',
     ''  5. Under "How LinkedIn uses your data", click "Get a copy of your data"'',
     ''  6. Select "Connections" (or "Want something in particular?" and check Connections)'',
     ''  7. Click "Request archive"'',
     ''  8. Wait for LinkedIn's email (may take up to 24 hours)'',
     ''  9. Download and extract the ZIP file'',
     ''  10. Use the Connections.csv file with this script:'',
     '''',
     ''     python linked_to_epstein.py --contacts /path/to/Connections.csv'']\<close>

text \<open>
  One iteration of the loop over \<^verbatim>\<open>enumerate(contacts)\<close> (lines 349 to 369); \<open>n\<close> is
  \<^verbatim>\<open>len(contacts)\<close>, and \<open>make_result\<close> is the dictionary of lines 357 to 365.
\<close>

definition make_result :: "contact \<Rightarrow> search_result \<Rightarrow> result" where
  "make_result contact search_result =
     \<lparr>name = full_name contact,
      r_first_name = first_name contact,
      r_last_name = last_name contact,
      r_company = company contact,
      r_position = position contact,
      total_mentions = total_hits search_result,
      hits = search_hits search_result\<rparr>"

definition loop_body ::
  "remote \<Rightarrow> args \<Rightarrow> nat \<Rightarrow> nat \<times> contact \<Rightarrow> result list \<times> world \<Rightarrow> result list \<times> world"
where
  "loop_body remote a n ic rw =
     (case (ic, rw) of ((i, contact), (results, w)) \<Rightarrow>
        let w1 = emit (Stdout (''  ['' @ str_int (int i + 1) @ ''/'' @ str_int (int n) @ ''] ''
                               @ full_name contact)) w;
            (search_result, w2) = search_epstein_files remote (full_name contact) 1 w1;
            mentions = total_hits search_result;
            w3 = print ('' -> '' @ str_int mentions @ '' hits'') w2;
            results' =
              (if mentions \<ge> min_mentions a then results @ [make_result contact search_result]
               else results);
            w4 = (if delay a > 0 \<and> int i < int n - 1 then emit (Sleep (delay a)) w3 else w3)
        in (results', w4))"

definition search_loop ::
  "remote \<Rightarrow> args \<Rightarrow> contact list \<Rightarrow> world \<Rightarrow> result list \<times> world"
where
  "search_loop remote a cs w =
     fold (loop_body remote a (length cs)) (enumerate 0 cs) ([], w)"

text \<open>The results handed to the renderer: collected by the loop, then sorted (line 372).\<close>

definition report_results :: "remote \<Rightarrow> args \<Rightarrow> contact list \<Rightarrow> world \<Rightarrow> result list" where
  "report_results remote a cs w = sort_reverse total_mentions (fst (search_loop remote a cs w))"

text \<open>The summary on the standard output (lines 379 to 393).\<close>

definition print_summary :: "contact list \<Rightarrow> result list \<Rightarrow> string \<Rightarrow> world \<Rightarrow> world" where
  "print_summary cs results output_path w =
     (let contacts_with_mentions = filter (\<lambda>r. total_mentions r > 0) results;
          w1 = print ([LF] @ replicate 60 CHR ''='') w;
          w2 = print ''SUMMARY'' w1;
          w3 = print (replicate 60 CHR ''='') w2;
          w4 = print (''Total contacts searched: '' @ str_int (int (length cs))) w3;
          w5 = print (''Contacts with mentions: ''
                      @ str_int (int (length contacts_with_mentions))) w4;
          w6 = (if contacts_with_mentions \<noteq> [] then
                  fold (\<lambda>r. print (''  '' @ rjust 6 (format_comma (total_mentions r)) @ '' - ''
                                    @ name r))
                    (take 20 contacts_with_mentions)
                    (print ([LF] @ ''Top mentions:'') w5)
                else print ([LF] @ ''No contacts found in the Epstein files.'') w5)
      in print ([LF] @ ''Full report saved to: '' @ output_path) w6)"

text \<open>
  How a run ends: \<^verbatim>\<open>sys.exit\<close> with a code (a run that reaches the end of \<^verbatim>\<open>main\<close> exits with
  0), or an exception nobody catches.
\<close>

datatype status = Exit int | Uncaught py_error

definition main ::
  "bool \<Rightarrow> args \<Rightarrow> (string \<rightharpoonup> string) \<Rightarrow> remote \<Rightarrow> world \<Rightarrow> status \<times> world"
where
  \<open>main HAS_REQUESTS a fs remote w =
     (if \<not> HAS_REQUESTS then
        (Exit 1,
         emit (Stderr (''Error: 'requests' library is required. Install with: pip install requests''
                       @ [LF])) w)
      else if \<not> truthy (contacts a) then (Exit 1, print ([LF] @ text_lines usage_lines) w)
      else
        let path = the (contacts a) in
        if fs path = None then
          (Exit 1, emit (Stderr (''Error: Contacts file not found: '' @ path @ [LF])) w)
        else
          let w1 = print (''Reading LinkedIn contacts from: '' @ path) w in
          case parse_linkedin_contacts fs path of
            Inl e \<Rightarrow> (Uncaught e, w1)
          | Inr cs \<Rightarrow>
              let w2 = print (''Found '' @ str_int (int (length cs)) @ '' contacts'') w1 in
              if cs = [] then
                (Exit 1,
                 emit (Stderr (''No contacts found in CSV. Check the file format.'' @ [LF])) w2)
              else
                let w3 = print ''Searching Epstein files API...'' w2;
                    (results, w4) = search_loop remote a cs w3;
                    sorted_results = sort_reverse total_mentions results;
                    w5 = print ([LF] @ ''Writing report to: '' @ output a) w4;
                    w6 = generate_html_report sorted_results (output a) w5;
                    w7 = print_summary cs sorted_results (output a) w6
                in (Exit 0, w7))\<close>

section \<open>Sample inputs\<close>

text \<open>A world in which nothing has happened yet, and a remote service that always times out.\<close>

definition w0 :: world where
  "w0 = \<lparr>requests_made = 0, trace = []\<rparr>"

definition timing_out :: remote where
  "timing_out url k = RequestException ''Read timed out.''"

text \<open>A file with notes only: no line holds both header markers.\<close>

definition notes_only :: string where
  "notes_only = ''Notes:\<newline>First Name of a contact\<newline>Last Name of a contact\<newline>''"

text \<open>
  The export of the end-to-end scenario: two contacts, the second without company and
  position.  The remote service finds five mentions of the first and none of anybody else.
\<close>

definition two_contacts_csv :: string where
  "two_contacts_csv =
     ''First Name,Last Name,Company,Position\<newline>Alice,Smith,Acme,Engineer\<newline>Bob,Jones,,\<newline>''"

definition alice :: contact where
  "alice = \<lparr>first_name = ''Alice'', last_name = ''Smith'', full_name = ''Alice Smith'',
            company = Some ''Acme'', position = Some ''Engineer''\<rparr>"

definition bob :: contact where
  "bob = \<lparr>first_name = ''Bob'', last_name = ''Jones'', full_name = ''Bob Jones'',
          company = Some [], position = Some []\<rparr>"

definition five_for_alice :: remote where
  "five_for_alice url k =
     Response \<lparr>success = True,
               data = Some \<lparr>totalHits = Some (if url = search_url ''Alice Smith'' then 5 else 0),
                            api_hits = Some []\<rparr>\<rparr>"

definition sample_args :: args where
  "sample_args = \<lparr>contacts = Some ''Connections.csv'', output = ''epstein_mentions_report.html'',
                  min_mentions = 1, delay = 1 / 5\<rparr>"

definition sample_fs :: "string \<rightharpoonup> string" where
  "sample_fs = [''Connections.csv'' \<mapsto> two_contacts_csv]"

text \<open>
  A third contact, a remote service that finds five mentions for the second request and
  two for every other one, and the arguments with \<^verbatim>\<open>--min-mentions 0\<close>.
\<close>

definition carol :: contact where
  "carol = \<lparr>first_name = ''Carol'', last_name = ''White'', full_name = ''Carol White'',
            company = None, position = None\<rparr>"

definition tied :: remote where
  "tied url k =
     Response \<lparr>success = True,
               data = Some \<lparr>totalHits = Some (if k = 1 then 5 else 2), api_hits = Some []\<rparr>\<rparr>"

definition keep_all_args :: args where
  "keep_all_args = sample_args\<lparr>min_mentions := 0\<rparr>"

text \<open>A hit with a file path in a lower-case dataset directory, and one without a file path.\<close>

definition efta_hit :: hit where
  "efta_hit = \<lparr>content_preview = Some ''flight log'', content = None,
               file_path = Some ''/dataset9/EFTA 1.pdf''\<rparr>"

definition bare_hit :: hit where
  "bare_hit = \<lparr>content_preview = None, content = Some ''flight log'', file_path = None\<rparr>"

text \<open>An export whose first data row has no cell for the last name.\<close>

definition short_row_csv :: string where
  "short_row_csv = ''First Name,Last Name\<newline>Alice\<newline>Bob,Jones\<newline>''"

section \<open>Notions used to state the escaping property\<close>

text \<open>
  The characters that \<^verbatim>\<open>html.escape\<close> replaces, the ampersand apart: a text without them
  can neither open or close a tag nor end an attribute value.
\<close>

definition markup :: "char \<Rightarrow> bool" where
  "markup c = (c \<in> {CHR ''<'', CHR ''>'', CHR 0x22, CHR 0x27})"

text \<open>
  A text that holds no \<^verbatim>\<open><sc\<close> and does not end with the beginning of one: appending such
  texts cannot produce a \<^verbatim>\<open><script\<close> tag.
\<close>

definition no_script :: "string \<Rightarrow> bool" where
  "no_script s = (\<not> sublist ''<sc'' s \<and> \<not> suffix ''<'' s \<and> \<not> suffix ''<s'' s)"

text \<open>
  A result with every character of every text value replaced by the letter \<^verbatim>\<open>x\<close>: the
  same results as far as the renderer's decisions go, with harmless texts.
\<close>

definition blank :: "string \<Rightarrow> string" where
  "blank s = map (\<lambda>c. CHR ''x'') s"

definition blank_hit :: "hit \<Rightarrow> hit" where
  "blank_hit h =
     \<lparr>content_preview = map_option blank (content_preview h),
      content = map_option blank (content h),
      file_path = map_option blank (file_path h)\<rparr>"

definition blank_result :: "result \<Rightarrow> result" where
  "blank_result r =
     r\<lparr>name := blank (name r),
       r_first_name := blank (r_first_name r),
       r_last_name := blank (r_last_name r),
       r_company := map_option blank (r_company r),
       r_position := map_option blank (r_position r),
       hits := map blank_hit (hits r)\<rparr>"

text \<open>A result whose texts try to inject markup.\<close>

definition obrien :: result where
  "obrien = \<lparr>name = ''O'' @ [CHR 0x27] @ ''Brien <script>'', r_first_name = ''O'' @ [CHR 0x27] @ ''Brien'',
              r_last_name = ''<script>'', r_company = Some ''<b>Acme</b>'', r_position = None,
              total_mentions = 3,
              hits = [\<lparr>content_preview = Some ''<img src=x>'', content = None,
                       file_path = Some ''/dataset1/<a>.pdf''\<rparr>]\<rparr>"

section \<open>Properties of the lookup client\<close>

lemma upto_single: "[0..(1::int) - 1] = [0]"
  by (simp add: upto.simps)

text \<open>The call \<^verbatim>\<open>main\<close> makes, with the default \<^verbatim>\<open>max_retries=1\<close>: one request, no retry.\<close>

lemma search_once:
  "search_epstein_files remote nm 1 w =
     (let url = search_url nm;
          w1 = emit (Http_get url) (w\<lparr>requests_made := requests_made w + 1\<rparr>)
      in case remote url (requests_made w) of
           Response body \<Rightarrow>
             if success body then
               (\<lparr>total_hits =
                   (case data body of None \<Rightarrow> 0
                    | Some d \<Rightarrow> (case totalHits d of None \<Rightarrow> 0 | Some n \<Rightarrow> n)),
                 search_hits =
                   (case data body of None \<Rightarrow> []
                    | Some d \<Rightarrow> (case api_hits d of None \<Rightarrow> [] | Some hs \<Rightarrow> hs)),
                 error = None\<rparr>, w1)
             else (\<lparr>total_hits = 0, search_hits = [], error = None\<rparr>, w1)
         | RequestException e \<Rightarrow>
             (\<lparr>total_hits = 0, search_hits = [], error = Some e\<rparr>,
              emit (Stderr (warning nm e)) w1))"
  by (simp add: search_epstein_files_def upto_single Let_def split: http_outcome.splits)

text \<open>
  C10: with \<^verbatim>\<open>max_retries = 0\<close> the lookup makes no request (the world is unchanged) and
  returns zero hits, no hit details and no error indicator; hence a result that carries
  an error indicator comes from a call with \<^verbatim>\<open>max_retries\<close> at least 1.
\<close>

theorem no_attempt_no_error:
  "search_epstein_files remote nm 0 w
     = (\<lparr>total_hits = 0, search_hits = [], error = None\<rparr>, w)
   \<and> (error (fst (search_epstein_files remote nm m w)) \<noteq> None \<longrightarrow> 1 \<le> m)"
proof -
  have "[0..(0::int) - 1] = []" by simp
  then have first: "search_epstein_files remote nm 0 w
     = (\<lparr>total_hits = 0, search_hits = [], error = None\<rparr>, w)"
    by (simp add: search_epstein_files_def)
  have "1 \<le> m" if "error (fst (search_epstein_files remote nm m w)) \<noteq> None"
  proof (rule ccontr)
    assume "\<not> 1 \<le> m"
    then have "[0..m - 1] = []" by simp
    then have "error (fst (search_epstein_files remote nm m w)) = None"
      by (simp add: search_epstein_files_def)
    with that show False by simp
  qed
  with first show ?thesis by blast
qed

theorem no_attempt_no_error_witness:
  "search_epstein_files timing_out ''Alice Smith'' 0 w0
     = (\<lparr>total_hits = 0, search_hits = [], error = None\<rparr>, w0)
   \<and> error (fst (search_epstein_files timing_out ''Alice Smith'' 1 w0)) = Some ''Read timed out.''
   \<and> (1::int) \<le> 1"
  using no_attempt_no_error [of timing_out "''Alice Smith''" w0 1]
  by (simp add: search_once timing_out_def)

lemma attempts_all_fail:
  "nat (m - 1 - j) = n \<Longrightarrow> j \<le> m - 1 \<Longrightarrow>
   \<forall>k\<le>n. remote (search_url nm) (requests_made w + k) = RequestException (msg (requests_made w + k))
   \<Longrightarrow> search_attempts remote nm m [j..m - 1] w =
        (\<lparr>total_hits = 0, search_hits = [], error = Some (msg (requests_made w + n))\<rparr>,
         w\<lparr>requests_made := requests_made w + Suc n,
           trace := trace w @ concat (replicate n [Http_get (search_url nm), Sleep 1])
                    @ [Http_get (search_url nm), Stderr (warning nm (msg (requests_made w + n)))]\<rparr>)"
proof (induction n arbitrary: j w)
  case 0
  then have j: "j = m - 1" by simp
  have "[j..m - 1] = [j]" unfolding j by (simp add: upto.simps)
  moreover have "remote (search_url nm) (requests_made w) = RequestException (msg (requests_made w))"
    using "0.prems"(3) by simp
  ultimately show ?case
    by (simp add: j Let_def emit_def)
next
  case (Suc n)
  then have lt: "j < m - 1" by simp
  then have up: "[j..m - 1] = j # [j + 1..m - 1]" by (simp add: upto.simps)
  let ?w1 = "emit (Sleep 1) (emit (Http_get (search_url nm)) (w\<lparr>requests_made := requests_made w + 1\<rparr>))"
  have fail0: "remote (search_url nm) (requests_made w) = RequestException (msg (requests_made w))"
    using Suc.prems(3) by (metis add.right_neutral le0)
  have rm: "requests_made ?w1 = requests_made w + 1" by (simp add: emit_def)
  have rest: "\<forall>k\<le>n. remote (search_url nm) (requests_made ?w1 + k)
                 = RequestException (msg (requests_made ?w1 + k))"
  proof (intro allI impI)
    fix k assume "k \<le> n"
    then have "Suc k \<le> Suc n" by simp
    with Suc.prems(3) have "remote (search_url nm) (requests_made w + Suc k)
                 = RequestException (msg (requests_made w + Suc k))" by blast
    then show "remote (search_url nm) (requests_made ?w1 + k)
                 = RequestException (msg (requests_made ?w1 + k))"
      by (simp add: emit_def)
  qed
  have n: "nat (m - 1 - (j + 1)) = n" using Suc.prems(1) by simp
  have le: "j + 1 \<le> m - 1" using lt by simp
  have step: "search_attempts remote nm m (j # [j + 1..m - 1]) w
                = search_attempts remote nm m [j + 1..m - 1] ?w1"
    using fail0 lt by (simp add: Let_def)
  show ?case
    unfolding up step Suc.IH [OF n le rest]
    by (simp add: emit_def)
qed

section \<open>Properties of the contact extractor\<close>

lemma find_header_none:
  "\<forall>line\<in>set ls. \<not> (sublist ''First Name'' line \<and> sublist ''Last Name'' line)
   \<Longrightarrow> find_header ls = (None, [])"
  by (induction ls) auto

text \<open>
  C5: when no line of the file holds both \<^verbatim>\<open>First Name\<close> and \<^verbatim>\<open>Last Name\<close>, the extractor
  returns the empty list of contacts, and no exception.
\<close>

theorem no_header_no_contacts:
  assumes "fs p = Some txt"
    and "\<forall>line\<in>set (file_lines txt).
           \<not> (sublist ''First Name'' line \<and> sublist ''Last Name'' line)"
  shows "parse_linkedin_contacts fs p = Inr []"
  using assms by (simp add: parse_linkedin_contacts_def find_header_none)

theorem no_header_no_contacts_witness:
  "file_lines notes_only
     = [''Notes:\<newline>'', ''First Name of a contact\<newline>'', ''Last Name of a contact\<newline>'']
   \<and> parse_linkedin_contacts [''Connections.csv'' \<mapsto> notes_only] ''Connections.csv'' = Inr []"
proof -
  have lines: "file_lines notes_only
     = [''Notes:\<newline>'', ''First Name of a contact\<newline>'', ''Last Name of a contact\<newline>'']"
    by code_simp
  have h1: "[''Connections.csv'' \<mapsto> notes_only] ''Connections.csv'' = Some notes_only"
    by simp
  have h2: "\<forall>line\<in>set (file_lines notes_only).
              \<not> (sublist ''First Name'' line \<and> sublist ''Last Name'' line)"
    unfolding lines by code_simp
  show ?thesis
    using lines h1 h2
      no_header_no_contacts [of "[''Connections.csv'' \<mapsto> notes_only]" "''Connections.csv''" notes_only]
    by simp
qed

text \<open>
  A row in which both name cells are present yields a contact exactly when both names are
  non-empty after stripping.
\<close>

lemma row_contact_present:
  "row_contact (d(''First Name'' \<mapsto> Some f, ''Last Name'' \<mapsto> Some l)) =
     (if strip f \<noteq> [] \<and> strip l \<noteq> [] then
        Inr (Some \<lparr>first_name = strip f, last_name = strip l,
                    full_name = strip f @ '' '' @ strip l,
                    company = get (d(''First Name'' \<mapsto> Some f, ''Last Name'' \<mapsto> Some l)) ''Company'' '''',
                    position = get (d(''First Name'' \<mapsto> Some f, ''Last Name'' \<mapsto> Some l)) ''Position'' ''''\<rparr>)
      else Inr None)"
  by (simp add: row_contact_def get_def strip_value_def)

text \<open>
  C6: a data row with fewer cells than the header has \<^verbatim>\<open>None\<close> as its last name, since
  \<^verbatim>\<open>DictReader\<close> fills the missing cells with \<^verbatim>\<open>None\<close> and the default of \<^verbatim>\<open>get\<close> does not apply
  to a key that is present.  Stripping it raises \<^verbatim>\<open>AttributeError\<close>: the row is not dropped,
  and the whole extraction fails.
\<close>

theorem short_row_raises:
  "csv_reader (splitlines short_row_csv)
     = [Inr [''First Name'', ''Last Name''], Inr [''Alice''], Inr [''Bob'', ''Jones'']]
   \<and> dict_row [''First Name'', ''Last Name''] [''Alice''] ''Last Name'' = Some None
   \<and> row_contact (dict_row [''First Name'', ''Last Name''] [''Alice'']) = Inl AttributeError
   \<and> parse_linkedin_contacts [''Connections.csv'' \<mapsto> short_row_csv] ''Connections.csv''
       = Inl AttributeError"
  by code_simp

section \<open>Properties of the loop over the contacts\<close>

lemma loop_body_results:
  "fst (loop_body remote a n (i, c) (rs, w)) =
     (let sr = fst (search_epstein_files remote (full_name c) 1
                 (emit (Stdout (''  ['' @ str_int (int i + 1) @ ''/'' @ str_int (int n) @ ''] ''
                                @ full_name c)) w))
      in if min_mentions a \<le> total_hits sr then rs @ [make_result c sr] else rs)"
  by (simp add: loop_body_def Let_def split: prod.splits)

lemma loop_body_trace:
  "\<exists>evs. trace (snd (loop_body remote a n (i, c) (rs, w)))
           = trace w @ evs @ (if 0 < delay a \<and> Suc i < n then [Sleep (delay a)] else [])
         \<and> filter is_sleep evs = [] \<and> evs \<noteq> [] \<and> \<not> is_sleep (last evs)"
proof -
  let ?p = "Stdout (''  ['' @ str_int (int i + 1) @ ''/'' @ str_int (int n) @ ''] '' @ full_name c)"
  let ?g = "Http_get (search_url (full_name c))"
  have lt: "(int i < int n - 1) = (Suc i < n)" by auto
  show ?thesis
  proof (cases "remote (search_url (full_name c)) (requests_made w)")
    case (RequestException e)
    let ?evs = "[?p, ?g, Stderr (warning (full_name c) e), Stdout ('' -> '' @ str_int 0 @ '' hits'' @ [LF])]"
    have "trace (snd (loop_body remote a n (i, c) (rs, w)))
           = trace w @ ?evs @ (if 0 < delay a \<and> Suc i < n then [Sleep (delay a)] else [])"
      using RequestException
      by (simp add: loop_body_def search_once Let_def emit_def print_def lt split: prod.splits)
    moreover have "filter is_sleep ?evs = [] \<and> ?evs \<noteq> [] \<and> \<not> is_sleep (last ?evs)"
      by (simp add: is_sleep_def)
    ultimately show ?thesis by blast
  next
    case (Response body)
    let ?m = "total_hits (fst (search_epstein_files remote (full_name c) 1 (emit ?p w)))"
    let ?evs = "[?p, ?g, Stdout ('' -> '' @ str_int ?m @ '' hits'' @ [LF])]"
    have "trace (snd (loop_body remote a n (i, c) (rs, w)))
           = trace w @ ?evs @ (if 0 < delay a \<and> Suc i < n then [Sleep (delay a)] else [])"
      using Response
      by (simp add: loop_body_def search_once Let_def emit_def print_def lt split: prod.splits)
    moreover have "filter is_sleep ?evs = [] \<and> ?evs \<noteq> [] \<and> \<not> is_sleep (last ?evs)"
      by (simp add: is_sleep_def)
    ultimately show ?thesis by blast
  qed
qed

lemma loop_sleeps:
  "0 < delay a \<Longrightarrow> k + length xs = n \<Longrightarrow>
   filter is_sleep (trace (snd (fold (loop_body remote a n) (enumerate k xs) (rs, w))))
     = filter is_sleep (trace w) @ replicate (length xs - 1) (Sleep (delay a))"
proof (induction xs arbitrary: k rs w)
  case Nil
  then show ?case by simp
next
  case (Cons x xs)
  obtain rs' w' where step: "loop_body remote a n (k, x) (rs, w) = (rs', w')"
    by (cases "loop_body remote a n (k, x) (rs, w)")
  obtain evs where tr: "trace w' = trace w @ evs @ (if 0 < delay a \<and> Suc k < n then [Sleep (delay a)] else [])"
    and ns: "filter is_sleep evs = []"
    using loop_body_trace [of remote a n k x rs w] step by auto
  have k: "Suc k + length xs = n" using Cons.prems by simp
  have "filter is_sleep (trace (snd (fold (loop_body remote a n) (enumerate (Suc k) xs) (rs', w'))))
          = filter is_sleep (trace w') @ replicate (length xs - 1) (Sleep (delay a))"
    by (rule Cons.IH [OF Cons.prems(1) k])
  moreover have "filter is_sleep (trace w') @ replicate (length xs - 1) (Sleep (delay a))
          = filter is_sleep (trace w) @ replicate (length xs) (Sleep (delay a))"
  proof (cases xs)
    case Nil
    with k tr ns show ?thesis by simp
  next
    case (Cons y ys)
    with k have "Suc k < n" by simp
    with tr ns Cons.prems(1) Cons show ?thesis by (simp add: is_sleep_def)
  qed
  ultimately show ?case by (simp add: step)
qed

lemma loop_last:
  "xs \<noteq> [] \<Longrightarrow> k + length xs = n \<Longrightarrow>
   \<not> is_sleep (last (trace (snd (fold (loop_body remote a n) (enumerate k xs) (rs, w)))))"
proof (induction xs arbitrary: k rs w)
  case Nil
  then show ?case by simp
next
  case (Cons x xs)
  obtain rs' w' where step: "loop_body remote a n (k, x) (rs, w) = (rs', w')"
    by (cases "loop_body remote a n (k, x) (rs, w)")
  show ?case
  proof (cases xs)
    case Nil
    with Cons.prems have "\<not> Suc k < n" by simp
    moreover obtain evs where "trace w' = trace w @ evs @ (if 0 < delay a \<and> Suc k < n then [Sleep (delay a)] else [])"
      and "evs \<noteq> []" and "\<not> is_sleep (last evs)"
      using loop_body_trace [of remote a n k x rs w] step by auto
    ultimately show ?thesis using Nil step by simp
  next
    case (Cons y ys)
    then have "xs \<noteq> []" by simp
    moreover have "Suc k + length xs = n" using Cons.prems by simp
    ultimately have "\<not> is_sleep (last (trace (snd (fold (loop_body remote a n) (enumerate (Suc k) xs) (rs', w')))))"
      by (rule Cons.IH)
    then show ?thesis by (simp add: step)
  qed
qed

lemma loop_results:
  "\<exists>srs. list_all2 (\<lambda>c sr. \<exists>w'. sr = fst (search_epstein_files remote (full_name c) 1 w')) xs srs
     \<and> fst (fold (loop_body remote a n) (enumerate k xs) (rs, w))
         = rs @ map (\<lambda>(c, sr). make_result c sr)
                  (filter (\<lambda>(c, sr). min_mentions a \<le> total_hits sr) (zip xs srs))"
proof (induction xs arbitrary: k rs w)
  case Nil
  then show ?case by simp
next
  case (Cons x xs)
  obtain rs' w' where step: "loop_body remote a n (k, x) (rs, w) = (rs', w')"
    by (cases "loop_body remote a n (k, x) (rs, w)")
  obtain sr where rs': "rs' = (if min_mentions a \<le> total_hits sr then rs @ [make_result x sr] else rs)"
    and sr: "\<exists>w1. sr = fst (search_epstein_files remote (full_name x) 1 w1)"
    using loop_body_results [of remote a n k x rs w] step by (auto simp: Let_def)
  obtain srs
    where all: "list_all2 (\<lambda>c sr. \<exists>w'. sr = fst (search_epstein_files remote (full_name c) 1 w'))
                  xs srs"
    and res: "fst (fold (loop_body remote a n) (enumerate (Suc k) xs) (rs', w'))
         = rs' @ map (\<lambda>(c, sr). make_result c sr)
                  (filter (\<lambda>(c, sr). min_mentions a \<le> total_hits sr) (zip xs srs))"
    using Cons.IH [of "Suc k" rs' w'] by blast
  have "list_all2 (\<lambda>c sr. \<exists>w'. sr = fst (search_epstein_files remote (full_name c) 1 w'))
          (x # xs) (sr # srs)"
    using all sr by simp
  moreover have "fst (fold (loop_body remote a n) (enumerate k (x # xs)) (rs, w))
         = rs @ map (\<lambda>(c, sr). make_result c sr)
                  (filter (\<lambda>(c, sr). min_mentions a \<le> total_hits sr) (zip (x # xs) (sr # srs)))"
    using res rs' by (simp add: step)
  ultimately show ?case by blast
qed

lemma sample_delay: "0 < delay sample_args"
  by (simp add: sample_args_def)

lemma parse_sample: "parse_linkedin_contacts sample_fs ''Connections.csv'' = Inr [alice, bob]"
  by code_simp

text \<open>
  C9: with a positive delay, an iteration of the loop ends with one \<^verbatim>\<open>time.sleep(delay)\<close>
  exactly when its contact is not the last one, and does not sleep otherwise.  Over a
  non-empty list of contacts the run sleeps \<open>length cs - 1\<close> times, each time for the
  configured delay, and the last thing it does is not a sleep; with one contact it never
  sleeps.
\<close>

theorem rate_limit_delay:
  assumes "0 < delay a"
  shows "(\<exists>evs. trace (snd (loop_body remote a n (i, c) (rs, w)))
                  = trace w @ evs @ (if Suc i < n then [Sleep (delay a)] else [])
                \<and> filter is_sleep evs = [])
       \<and> (cs \<noteq> [] \<longrightarrow>
            filter is_sleep (trace (snd (search_loop remote a cs w)))
              = filter is_sleep (trace w) @ replicate (length cs - 1) (Sleep (delay a))
            \<and> \<not> is_sleep (last (trace (snd (search_loop remote a cs w)))))"
proof -
  have one: "\<exists>evs. trace (snd (loop_body remote a n (i, c) (rs, w)))
                  = trace w @ evs @ (if Suc i < n then [Sleep (delay a)] else [])
                \<and> filter is_sleep evs = []"
    using loop_body_trace [of remote a n i c rs w] assms by auto
  have sleeps: "filter is_sleep (trace (snd (search_loop remote a cs w)))
              = filter is_sleep (trace w) @ replicate (length cs - 1) (Sleep (delay a))"
    unfolding search_loop_def by (rule loop_sleeps [OF assms]) simp
  have "\<not> is_sleep (last (trace (snd (search_loop remote a cs w))))" if "cs \<noteq> []"
    unfolding search_loop_def by (rule loop_last [OF that]) simp
  with one sleeps show ?thesis by blast
qed

theorem rate_limit_delay_witness:
  "0 < delay sample_args
   \<and> filter is_sleep (trace (snd (search_loop five_for_alice sample_args [alice, bob] w0)))
       = [Sleep (1 / 5)]
   \<and> \<not> is_sleep (last (trace (snd (search_loop five_for_alice sample_args [alice, bob] w0))))
   \<and> filter is_sleep (trace (snd (search_loop five_for_alice sample_args [alice] w0))) = []"
  using rate_limit_delay [OF sample_delay, of five_for_alice _ _ _ _ w0 "[alice, bob]"]
    rate_limit_delay [OF sample_delay, of five_for_alice _ _ _ _ w0 "[alice]"]
  by (simp add: sample_args_def w0_def)

section \<open>Properties of the whole run\<close>

text \<open>A run that finds contacts: what \<^verbatim>\<open>main\<close> does after parsing them.\<close>

lemma main_run:
  assumes "contacts a = Some p" and "p \<noteq> []"
    and "parse_linkedin_contacts fs p = Inr cs" and "cs \<noteq> []"
  shows "main True a fs remote w =
     (let w3 = print ''Searching Epstein files API...''
                 (print (''Found '' @ str_int (int (length cs)) @ '' contacts'')
                    (print (''Reading LinkedIn contacts from: '' @ p) w));
          sorted_results = report_results remote a cs w3
      in (Exit 0,
          print_summary cs sorted_results (output a)
            (generate_html_report sorted_results (output a)
               (print ([LF] @ ''Writing report to: '' @ output a)
                  (snd (search_loop remote a cs w3))))))"
proof -
  have "fs p \<noteq> None"
    using assms(3) by (auto simp: parse_linkedin_contacts_def split: option.splits)
  then show ?thesis
    using assms
    by (simp add: main_def truthy_def Let_def report_results_def split: prod.splits)
qed

lemma failed_lookup_skipped:
  assumes "remote (search_url (full_name c)) (requests_made w) = RequestException e"
    and "0 < min_mentions a"
  shows "fst (loop_body remote a n (i, c) (rs, w)) = rs"
  using assms by (simp add: loop_body_results search_once emit_def)

text \<open>
  C4: when \<^verbatim>\<open>max_retries\<close> is at least 1 and every attempt raises a \<^verbatim>\<open>RequestException\<close>
  (a timeout is one), the lookup makes \<^verbatim>\<open>max_retries\<close> requests, one second apart, writes a
  warning to the standard error and returns zero hits, no hit details and the message of
  the last failure as error indicator.  In \<^verbatim>\<open>main\<close> a contact whose lookup fails adds no
  result when the threshold is positive, and the run still ends with exit code 0.
\<close>

theorem failed_lookup:
  "(1 \<le> m \<and> (\<forall>k<nat m. remote (search_url nm) (requests_made w + k)
                          = RequestException (msg (requests_made w + k)))
      \<longrightarrow> search_epstein_files remote nm m w =
            (\<lparr>total_hits = 0, search_hits = [],
              error = Some (msg (requests_made w + (nat m - 1)))\<rparr>,
             w\<lparr>requests_made := requests_made w + nat m,
               trace := trace w @ concat (replicate (nat m - 1) [Http_get (search_url nm), Sleep 1])
                        @ [Http_get (search_url nm),
                           Stderr (warning nm (msg (requests_made w + (nat m - 1))))]\<rparr>))
   \<and> (remote (search_url (full_name c)) (requests_made w) = RequestException e
        \<and> 0 < min_mentions a
      \<longrightarrow> fst (loop_body remote a n (i, c) (rs, w)) = rs)
   \<and> (contacts a = Some p \<and> p \<noteq> [] \<and> parse_linkedin_contacts fs p = Inr cs \<and> cs \<noteq> []
      \<longrightarrow> fst (main True a fs remote w) = Exit 0)"
proof (intro conjI impI)
  assume h: "1 \<le> m \<and> (\<forall>k<nat m. remote (search_url nm) (requests_made w + k)
                          = RequestException (msg (requests_made w + k)))"
  then have m: "nat (m - 1 - 0) = nat m - 1" and le: "0 \<le> m - 1" by auto
  have all: "\<forall>k\<le>nat m - 1. remote (search_url nm) (requests_made w + k)
                          = RequestException (msg (requests_made w + k))"
    using h by auto
  have "Suc (nat m - 1) = nat m" using h by auto
  then show "search_epstein_files remote nm m w =
            (\<lparr>total_hits = 0, search_hits = [],
              error = Some (msg (requests_made w + (nat m - 1)))\<rparr>,
             w\<lparr>requests_made := requests_made w + nat m,
               trace := trace w @ concat (replicate (nat m - 1) [Http_get (search_url nm), Sleep 1])
                        @ [Http_get (search_url nm),
                           Stderr (warning nm (msg (requests_made w + (nat m - 1))))]\<rparr>)"
    using attempts_all_fail [of m 0 "nat m - 1" remote nm w msg] m le all
    by (simp add: search_epstein_files_def)
next
  assume "remote (search_url (full_name c)) (requests_made w) = RequestException e
        \<and> 0 < min_mentions a"
  then show "fst (loop_body remote a n (i, c) (rs, w)) = rs"
    by (simp add: failed_lookup_skipped)
next
  assume "contacts a = Some p \<and> p \<noteq> [] \<and> parse_linkedin_contacts fs p = Inr cs \<and> cs \<noteq> []"
  then show "fst (main True a fs remote w) = Exit 0"
    by (simp add: main_run Let_def)
qed

theorem failed_lookup_witness:
  "search_epstein_files timing_out ''Alice Smith'' 2 w0 =
     (\<lparr>total_hits = 0, search_hits = [], error = Some ''Read timed out.''\<rparr>,
      \<lparr>requests_made = 2,
       trace = [Http_get (search_url ''Alice Smith''), Sleep 1,
                Http_get (search_url ''Alice Smith''),
                Stderr (warning ''Alice Smith'' ''Read timed out.'')]\<rparr>)
   \<and> fst (loop_body timing_out sample_args 2 (0, alice) ([], w0)) = []
   \<and> fst (main True sample_args sample_fs timing_out w0) = Exit 0"
  using failed_lookup [of 2 timing_out "''Alice Smith''" w0 "\<lambda>k. ''Read timed out.''"
      alice "''Read timed out.''" sample_args 2 0 "[]" "''Connections.csv''" sample_fs "[alice, bob]"]
    parse_sample
  by (simp add: timing_out_def w0_def sample_args_def alice_def numeral_2_eq_2)

section \<open>Properties of the sorting\<close>

lemma sort_reverse_sorted:
  "sorted_wrt (\<lambda>x y. key y \<le> key x) (sort_reverse key xs)"
proof -
  have "sorted (map key (sort_key key (rev xs)))" by simp
  then have "sorted_wrt (\<lambda>x y. key x \<le> key y) (sort_key key (rev xs))"
    by (simp add: sorted_map)
  then show ?thesis
    unfolding sort_reverse_def by (simp add: sorted_wrt_rev)
qed

lemma sort_reverse_stable:
  "filter (\<lambda>x. key x = k) (sort_reverse key xs) = filter (\<lambda>x. key x = k) xs"
  by (simp add: sort_reverse_def rev_filter [symmetric] sort_key_stable)

lemma set_sort_reverse: "set (sort_reverse key xs) = set xs"
  by (simp add: sort_reverse_def)

text \<open>
  C3: the results handed to the renderer are in descending order of their mention counts,
  and for every count the results with that count stand in the order in which the loop
  collected them, which is the order of their contacts in the input list (\<open>srs\<close> are the
  results of the lookups of the contacts, in order).
\<close>

theorem report_sorted_stable:
  "\<exists>srs. list_all2 (\<lambda>c sr. \<exists>w'. sr = fst (search_epstein_files remote (full_name c) 1 w')) cs srs
     \<and> (let collected = map (\<lambda>(c, sr). make_result c sr)
                           (filter (\<lambda>(c, sr). min_mentions a \<le> total_hits sr) (zip cs srs));
             report = report_results remote a cs w
         in sorted_wrt (\<lambda>x y. total_mentions y \<le> total_mentions x) report
            \<and> (\<forall>k. filter (\<lambda>r. total_mentions r = k) report
                     = filter (\<lambda>r. total_mentions r = k) collected))"
proof -
  obtain srs
    where all: "list_all2 (\<lambda>c sr. \<exists>w'. sr = fst (search_epstein_files remote (full_name c) 1 w'))
                  cs srs"
    and res: "fst (search_loop remote a cs w)
         = map (\<lambda>(c, sr). make_result c sr)
             (filter (\<lambda>(c, sr). min_mentions a \<le> total_hits sr) (zip cs srs))"
    using loop_results [of remote cs a "length cs" 0 "[]" w]
    by (auto simp: search_loop_def)
  show ?thesis
    using all
    by (intro exI [of _ srs])
       (simp add: Let_def report_results_def res [symmetric] sort_reverse_sorted sort_reverse_stable)
qed

theorem report_sorted_stable_witness:
  "map name (report_results tied sample_args [alice, bob, carol] w0)
     = [''Bob Jones'', ''Alice Smith'', ''Carol White'']
   \<and> map total_mentions (report_results tied sample_args [alice, bob, carol] w0) = [5, 2, 2]"
proof -
  have ev: "report_results tied sample_args [alice, bob, carol] w0
      = [make_result bob \<lparr>total_hits = 5, search_hits = [], error = None\<rparr>,
         make_result alice \<lparr>total_hits = 2, search_hits = [], error = None\<rparr>,
         make_result carol \<lparr>total_hits = 2, search_hits = [], error = None\<rparr>]"
    by code_simp
  have "map name (report_results tied sample_args [alice, bob, carol] w0)
     = [''Bob Jones'', ''Alice Smith'', ''Carol White'']
   \<and> map total_mentions (report_results tied sample_args [alice, bob, carol] w0) = [5, 2, 2]"
    unfolding ev by (simp add: make_result_def alice_def bob_def carol_def)
  with report_sorted_stable [of tied "[alice, bob, carol]" sample_args w0]
  show ?thesis by blast
qed

section \<open>Properties of the report\<close>

lemma report_threshold:
  "r \<in> set (report_results remote a cs w) \<Longrightarrow> min_mentions a \<le> total_mentions r"
proof -
  assume r: "r \<in> set (report_results remote a cs w)"
  obtain srs where res: "fst (search_loop remote a cs w)
         = map (\<lambda>(c, sr). make_result c sr)
             (filter (\<lambda>(c, sr). min_mentions a \<le> total_hits sr) (zip cs srs))"
    using loop_results [of remote cs a "length cs" 0 "[]" w]
    by (auto simp: search_loop_def)
  from r have "r \<in> set (fst (search_loop remote a cs w))"
    by (simp add: report_results_def set_sort_reverse)
  then show ?thesis
    unfolding res by (auto simp: make_result_def)
qed

lemma render_loop:
  "fold (\<lambda>result html. if total_mentions result = 0 then html else html @ contact_block result)
     results html
   = html @ concat (map contact_block (filter (\<lambda>r. total_mentions r \<noteq> 0) results))"
  by (induction results arbitrary: html) auto

lemma html_content_blocks:
  "html_content results =
     html_head (str_int (int (length results)))
       (str_int (int (length (filter (\<lambda>r. 0 < total_mentions r) results))))
     @ concat (map contact_block (filter (\<lambda>r. total_mentions r \<noteq> 0) results))
     @ html_footer"
  by (simp add: html_content_def render_loop Let_def)

lemma trace_print: "trace (print s w) = trace w @ [Stdout (s @ [LF])]"
  by (simp add: print_def emit_def)

lemma trace_fold_print:
  "trace (fold (\<lambda>r. print (f r)) xs w) = trace w @ map (\<lambda>r. Stdout (f r @ [LF])) xs"
  by (induction xs arbitrary: w) (simp_all add: trace_print)

lemma print_summary_keeps:
  "e \<in> set (trace w) \<Longrightarrow> e \<in> set (trace (print_summary cs rs out w))"
  by (simp add: print_summary_def Let_def trace_print trace_fold_print)

lemma main_writes_report:
  assumes "contacts a = Some p" and "p \<noteq> []"
    and "parse_linkedin_contacts fs p = Inr cs" and "cs \<noteq> []"
  shows "\<exists>w3. Write_file (output a) (html_content (report_results remote a cs w3))
              \<in> set (trace (snd (main True a fs remote w)))"
proof -
  let ?w3 = "print ''Searching Epstein files API...''
                 (print (''Found '' @ str_int (int (length cs)) @ '' contacts'')
                    (print (''Reading LinkedIn contacts from: '' @ p) w))"
  have "Write_file (output a) (html_content (report_results remote a cs ?w3))
          \<in> set (trace (snd (main True a fs remote w)))"
    unfolding main_run [OF assms] Let_def snd_conv
    by (rule print_summary_keeps) (simp add: generate_html_report_def emit_def)
  then show ?thesis by blast
qed

text \<open>
  C2: every result handed to the renderer has at least \<^verbatim>\<open>min_mentions\<close> mentions, whatever
  the threshold, and it is the report of these results that \<^verbatim>\<open>main\<close> writes.  The document
  is the head, one block for every result whose mention count is not zero, in order, and
  the footer: a result with zero mentions gets no block.  Mention counts are not negative
  in the data model, and then the blocks are those of the results with at least one
  mention.
\<close>

theorem two_tier_filter:
  "(\<forall>r\<in>set (report_results remote a cs w). min_mentions a \<le> total_mentions r)
   \<and> (contacts a = Some p \<and> p \<noteq> [] \<and> parse_linkedin_contacts fs p = Inr cs \<and> cs \<noteq> []
        \<longrightarrow> (\<exists>w3. Write_file (output a) (html_content (report_results remote a cs w3))
                    \<in> set (trace (snd (main True a fs remote w)))))
   \<and> html_content results =
       html_head (str_int (int (length results)))
         (str_int (int (length (filter (\<lambda>r. 0 < total_mentions r) results))))
       @ concat (map contact_block (filter (\<lambda>r. total_mentions r \<noteq> 0) results))
       @ html_footer
   \<and> ((\<forall>r\<in>set results. 0 \<le> total_mentions r)
        \<longrightarrow> filter (\<lambda>r. total_mentions r \<noteq> 0) results
            = filter (\<lambda>r. 1 \<le> total_mentions r) results)"
proof (intro conjI impI ballI)
  fix r assume "r \<in> set (report_results remote a cs w)"
  then show "min_mentions a \<le> total_mentions r" by (rule report_threshold)
next
  assume "contacts a = Some p \<and> p \<noteq> [] \<and> parse_linkedin_contacts fs p = Inr cs \<and> cs \<noteq> []"
  then show "\<exists>w3. Write_file (output a) (html_content (report_results remote a cs w3))
                    \<in> set (trace (snd (main True a fs remote w)))"
    by (simp add: main_writes_report)
next
  show "html_content results =
       html_head (str_int (int (length results)))
         (str_int (int (length (filter (\<lambda>r. 0 < total_mentions r) results))))
       @ concat (map contact_block (filter (\<lambda>r. total_mentions r \<noteq> 0) results))
       @ html_footer"
    by (rule html_content_blocks)
next
  assume "\<forall>r\<in>set results. 0 \<le> total_mentions r"
  then show "filter (\<lambda>r. total_mentions r \<noteq> 0) results
            = filter (\<lambda>r. 1 \<le> total_mentions r) results"
    by (intro filter_cong) auto
qed

theorem two_tier_filter_witness:
  "report_results five_for_alice keep_all_args [alice, bob] w0
     = [make_result alice \<lparr>total_hits = 5, search_hits = [], error = None\<rparr>,
        make_result bob \<lparr>total_hits = 0, search_hits = [], error = None\<rparr>]
   \<and> html_content (report_results five_for_alice keep_all_args [alice, bob] w0)
     = html_head ''2'' ''1''
       @ contact_block (make_result alice \<lparr>total_hits = 5, search_hits = [], error = None\<rparr>)
       @ html_footer
   \<and> min_mentions keep_all_args = 0"
proof -
  let ?rs = "[make_result alice \<lparr>total_hits = 5, search_hits = [], error = None\<rparr>,
              make_result bob \<lparr>total_hits = 0, search_hits = [], error = None\<rparr>]"
  have ev: "report_results five_for_alice keep_all_args [alice, bob] w0 = ?rs"
    by code_simp
  have s1: "str_int 1 = ''1''" and s2: "str_int 2 = ''2''"
    by code_simp+
  have m: "min_mentions keep_all_args = 0"
    by (simp add: keep_all_args_def)
  have nonneg: "\<forall>r\<in>set ?rs. 0 \<le> total_mentions r"
    by (simp add: make_result_def)
  have parse: "contacts keep_all_args = Some ''Connections.csv'' \<and> ''Connections.csv'' \<noteq> []
      \<and> parse_linkedin_contacts sample_fs ''Connections.csv'' = Inr [alice, bob]
      \<and> [alice, bob] \<noteq> []"
    by (simp add: parse_sample keep_all_args_def sample_args_def)
  from two_tier_filter [of five_for_alice keep_all_args "[alice, bob]" w0
      "''Connections.csv''" sample_fs ?rs] nonneg parse
  have "html_content ?rs = html_head ''2'' ''1''
       @ contact_block (make_result alice \<lparr>total_hits = 5, search_hits = [], error = None\<rparr>)
       @ html_footer"
    by (simp add: make_result_def s1 s2)
  with ev m show ?thesis by simp
qed

section \<open>Properties of the links\<close>

lemma rstrip_base: "rstrip_slash PDF_BASE_URL = ''https://www.justice.gov/epstein/files''"
  by (simp add: rstrip_slash_def PDF_BASE_URL_def)

lemma replace_dataset_nonempty:
  "s \<noteq> [] \<Longrightarrow> replace s ''dataset'' ''DataSet'' \<noteq> []"
  by (cases s) (simp_all add: replace_def)

lemma replace_dataset_slash:
  "startswith (replace s ''dataset'' ''DataSet'') ''/'' = startswith s ''/''"
  by (cases s) (auto simp: replace_def startswith_def)

lemma quote_slash: "quote (CHR ''/'' # s) = CHR ''/'' # quote s"
  by (simp add: quote_def quote_char_def)

text \<open>
  C8: for a hit with a non-empty file path the link is the PDF base URL without its final
  slash when the path starts with a slash, and the base URL as it is otherwise, followed by
  the path with \<^verbatim>\<open>dataset\<close> rewritten to \<^verbatim>\<open>DataSet\<close> and then percent-encoded with the
  slashes kept; either way the link starts with the base URL, and the hit shows an anchor
  with it.  A hit whose file path is absent or empty has no link and no anchor.
\<close>

theorem link_url:
  \<open>(get_str (file_path h) \<noteq> [] \<longrightarrow>
      hit_pdf_url h =
        (if startswith (get_str (file_path h)) ''/'' then ''https://www.justice.gov/epstein/files''
         else ''https://www.justice.gov/epstein/files/'')
        @ quote (replace (get_str (file_path h)) ''dataset'' ''DataSet'')
      \<and> prefix PDF_BASE_URL (hit_pdf_url h)
      \<and> hit_link h =
          ''<a class="hit-link" href="'' @ html_escape (hit_pdf_url h)
          @ ''" target="_blank">View PDF: ''
          @ html_escape (replace (get_str (file_path h)) ''dataset'' ''DataSet'') @ ''</a>'')
   \<and> (get_str (file_path h) = [] \<longrightarrow> hit_pdf_url h = [] \<and> hit_link h = [])\<close>
proof (intro conjI impI)
  assume ne: "get_str (file_path h) \<noteq> []"
  let ?p = "replace (get_str (file_path h)) ''dataset'' ''DataSet''"
  show url: "hit_pdf_url h =
        (if startswith (get_str (file_path h)) ''/'' then ''https://www.justice.gov/epstein/files''
         else ''https://www.justice.gov/epstein/files/'')
        @ quote ?p"
    using ne by (simp add: hit_pdf_url_def Let_def replace_dataset_slash rstrip_slash_def PDF_BASE_URL_def)
  show "prefix PDF_BASE_URL (hit_pdf_url h)"
  proof (cases "startswith (get_str (file_path h)) ''/''")
    case True
    then have "startswith ?p ''/''" by (simp add: replace_dataset_slash)
    then obtain rest where "?p = CHR ''/'' # rest"
      by (auto simp: startswith_def prefix_def)
    with True show ?thesis
      unfolding url by (simp add: quote_slash PDF_BASE_URL_def)
  next
    case False
    then show ?thesis unfolding url by (simp add: PDF_BASE_URL_def)
  qed
  have "hit_pdf_url h \<noteq> []" unfolding url by simp
  then show \<open>hit_link h =
          ''<a class="hit-link" href="'' @ html_escape (hit_pdf_url h)
          @ ''" target="_blank">View PDF: ''
          @ html_escape ?p @ ''</a>''\<close>
    using ne by (simp add: hit_link_def hit_file_path_def Let_def)
next
  assume "get_str (file_path h) = []"
  then show "hit_pdf_url h = []" by (simp add: hit_pdf_url_def)
next
  assume "get_str (file_path h) = []"
  then show "hit_link h = []" by (simp add: hit_link_def hit_pdf_url_def)
qed

theorem link_url_witness:
  "get_str (file_path efta_hit) \<noteq> []
   \<and> hit_pdf_url efta_hit = ''https://www.justice.gov/epstein/files/DataSet9/EFTA%201.pdf''
   \<and> get_str (file_path bare_hit) = [] \<and> hit_link bare_hit = []"
proof -
  have ne: "get_str (file_path efta_hit) \<noteq> []"
    by (simp add: efta_hit_def get_str_def)
  have e: "get_str (file_path bare_hit) = []"
    by (simp add: bare_hit_def get_str_def)
  have q: "(if startswith (get_str (file_path efta_hit)) ''/''
            then ''https://www.justice.gov/epstein/files''
            else ''https://www.justice.gov/epstein/files/'')
           @ quote (replace (get_str (file_path efta_hit)) ''dataset'' ''DataSet'')
           = ''https://www.justice.gov/epstein/files/DataSet9/EFTA%201.pdf''"
    by code_simp
  show ?thesis
    using link_url [of efta_hit] link_url [of bare_hit] ne e q by simp
qed

section \<open>The end-to-end scenario\<close>

lemma print_summary_total:
  "Stdout (''Total contacts searched: '' @ str_int (int (length cs)) @ [LF])
     \<in> set (trace (print_summary cs rs out w))"
  by (simp add: print_summary_def Let_def trace_print trace_fold_print)

text \<open>
  C1: in the end-to-end scenario (two contacts, five mentions of the first and none of the
  second, threshold 1), the run prints \<^verbatim>\<open>Total contacts searched: 2\<close> on the standard output,
  and the report it writes shows \<^verbatim>\<open>Total contacts searched: 1\<close>: the figure of the report is
  the number of results that passed the threshold, not the number of contacts.
\<close>

theorem html_total_is_result_count:
  \<open>fst (main True sample_args sample_fs five_for_alice w0) = Exit 0
   \<and> Stdout (''Total contacts searched: 2'' @ [LF])
       \<in> set (trace (snd (main True sample_args sample_fs five_for_alice w0)))
   \<and> Write_file ''epstein_mentions_report.html''
        (html_head ''1'' ''1''
         @ contact_block (make_result alice \<lparr>total_hits = 5, search_hits = [], error = None\<rparr>)
         @ html_footer)
       \<in> set (trace (snd (main True sample_args sample_fs five_for_alice w0)))
   \<and> html_head ''1'' ''1'' =
        text_lines html_head_lines
        @ ''        <strong>Total contacts searched:</strong> 1<br>'' @ [LF]
        @ ''        <strong>Contacts with mentions:</strong> 1'' @ [LF]
        @ ''    </div>'' @ [LF]\<close>
proof -
  let ?w3 = "print ''Searching Epstein files API...''
                 (print (''Found '' @ str_int (int (length [alice, bob])) @ '' contacts'')
                    (print (''Reading LinkedIn contacts from: '' @ ''Connections.csv'') w0))"
  let ?r = "make_result alice \<lparr>total_hits = 5, search_hits = [], error = None\<rparr>"
  have c: "contacts sample_args = Some ''Connections.csv''"
    and out: "output sample_args = ''epstein_mentions_report.html''"
    by (simp_all add: sample_args_def)
  have run: "main True sample_args sample_fs five_for_alice w0 =
       (Exit 0,
        print_summary [alice, bob] (report_results five_for_alice sample_args [alice, bob] ?w3)
          (output sample_args)
          (generate_html_report (report_results five_for_alice sample_args [alice, bob] ?w3)
             (output sample_args)
             (print ([LF] @ ''Writing report to: '' @ output sample_args)
                (snd (search_loop five_for_alice sample_args [alice, bob] ?w3)))))"
    using main_run [OF c _ parse_sample, of five_for_alice w0] by (simp add: Let_def)
  have ev: "report_results five_for_alice sample_args [alice, bob] ?w3 = [?r]"
    by code_simp
  have s1: "str_int 1 = ''1''" and s2: "str_int 2 = ''2''"
    by code_simp+
  have doc: "html_content [?r] = html_head ''1'' ''1'' @ contact_block ?r @ html_footer"
    by (simp add: html_content_blocks make_result_def s1)
  have "Stdout (''Total contacts searched: 2'' @ [LF])
       \<in> set (trace (snd (main True sample_args sample_fs five_for_alice w0)))"
    unfolding run snd_conv using print_summary_total [of "[alice, bob]"] by (simp add: s2)
  moreover have "Write_file ''epstein_mentions_report.html''
        (html_head ''1'' ''1'' @ contact_block ?r @ html_footer)
       \<in> set (trace (snd (main True sample_args sample_fs five_for_alice w0)))"
    unfolding run snd_conv ev out doc [symmetric]
    by (rule print_summary_keeps) (simp add: generate_html_report_def emit_def)
  moreover have "fst (main True sample_args sample_fs five_for_alice w0) = Exit 0"
    unfolding run by simp
  ultimately show ?thesis
    by (simp add: html_head_def)
qed

section \<open>Escaping\<close>

lemma replace_scan_single:
  "replace_scan [a] new s = concat (map (\<lambda>c. if c = a then new else [c]) s)"
  by (induction s) auto

lemma replace_single:
  "replace s [a] new = concat (map (\<lambda>c. if c = a then new else [c]) s)"
  by (simp add: replace_def replace_scan_single)

lemma html_escape_Nil: "html_escape [] = []"
  by (simp add: html_escape_def replace_single)

lemma html_escape_Cons:
  "html_escape (c # s) =
     (if c = CHR ''&'' then ''&amp;''
      else if c = CHR ''<'' then ''&lt;''
      else if c = CHR ''>'' then ''&gt;''
      else if c = CHR 0x22 then ''&quot;''
      else if c = CHR 0x27 then ''&#x27;''
      else [c]) @ html_escape s"
  by (simp add: html_escape_def replace_single)

lemma escape_no_markup: "filter markup (html_escape s) = []"
  by (induction s) (auto simp: html_escape_Nil html_escape_Cons markup_def)

lemma escape_no_lt: "CHR ''<'' \<notin> set (html_escape s)"
proof -
  have "CHR ''<'' \<notin> set (filter markup (html_escape s))"
    by (simp add: escape_no_markup)
  then show ?thesis by (simp add: markup_def)
qed

lemma no_script_append: "no_script a \<Longrightarrow> no_script b \<Longrightarrow> no_script (a @ b)"
  by (auto simp: no_script_def sublist_append suffix_append append_eq_Cons_conv
        Cons_eq_append_conv)

lemma no_lt_no_script: "CHR ''<'' \<notin> set s \<Longrightarrow> no_script s"
  using set_mono_sublist [of "''<sc''" s] set_mono_suffix [of "''<''" s]
    set_mono_suffix [of "''<s''" s]
  by (auto simp: no_script_def)

lemma no_script_concat: "list_all no_script xs \<Longrightarrow> no_script (concat xs)"
  by (induction xs) (simp_all add: no_script_append no_lt_no_script)

lemma no_script_if: "no_script a \<Longrightarrow> no_script b \<Longrightarrow> no_script (if c then a else b)"
  by simp

lemma digit_char_no_lt: "d < 10 \<Longrightarrow> digit_char d \<noteq> CHR ''<''"
proof -
  assume "d < 10"
  then have "digit_char d \<in> set ''0123456789''"
    unfolding digit_char_def by (intro nth_mem) simp
  then show ?thesis by auto
qed

lemma str_nat_no_lt: "CHR ''<'' \<notin> set (str_nat n)"
proof (induction n rule: str_nat.induct)
  case (1 n)
  show ?case
  proof (cases "n < 10")
    case True
    then show ?thesis
      using digit_char_no_lt [of n] by (subst str_nat.simps) auto
  next
    case False
    moreover have "digit_char (n mod 10) \<noteq> CHR ''<''"
      by (rule digit_char_no_lt) simp
    ultimately show ?thesis
      using "1.IH" by (subst str_nat.simps) auto
  qed
qed

lemma str_int_no_lt: "CHR ''<'' \<notin> set (str_int i)"
  by (simp add: str_int_def str_nat_no_lt)

lemma group3_set: "set (group3 s) \<subseteq> insert CHR '','' (set s)"
  by (induction s rule: group3.induct) auto

lemma format_comma_no_lt: "CHR ''<'' \<notin> set (format_comma i)"
proof -
  have "CHR ''<'' \<notin> set (group3 (rev (str_nat (nat \<bar>i\<bar>))))"
    using group3_set [of "rev (str_nat (nat \<bar>i\<bar>))"] str_nat_no_lt [of "nat \<bar>i\<bar>"] by auto
  then show ?thesis by (simp add: format_comma_def)
qed

lemma join_no_lt:
  "CHR ''<'' \<notin> set sep \<Longrightarrow> \<forall>x\<in>set xs. CHR ''<'' \<notin> set x \<Longrightarrow> CHR ''<'' \<notin> set (join sep xs)"
  by (induction sep xs rule: join.induct) auto

lemma contact_info_no_lt: "\<forall>x\<in>set (contact_info r). CHR ''<'' \<notin> set x"
  by (auto simp: contact_info_def escape_no_lt)

lemma head_lines_no_script: "list_all no_script html_head_lines"
  by code_simp

lemma no_script_LF: "no_script [LF]"
  by code_simp

lemma text_lines_no_script: "list_all no_script ls \<Longrightarrow> no_script (text_lines ls)"
  unfolding text_lines_def
  by (rule no_script_concat) (simp add: list_all_iff no_script_append no_script_LF)

lemma html_head_no_script:
  "CHR ''<'' \<notin> set a \<Longrightarrow> CHR ''<'' \<notin> set b \<Longrightarrow> no_script (html_head a b)"
  unfolding html_head_def
  by (intro no_script_append text_lines_no_script head_lines_no_script no_script_LF;
      ((rule no_lt_no_script, assumption) | code_simp))

lemma html_footer_no_script: "no_script html_footer"
  by code_simp

lemma hit_link_no_script: "no_script (hit_link h)"
  unfolding hit_link_def
  by (intro no_script_if no_script_append;
      ((rule no_lt_no_script, rule escape_no_lt) | code_simp))

lemma hit_block_no_script: "no_script (hit_block h)"
  unfolding hit_block_def
  by (intro no_script_append hit_link_no_script no_script_LF;
      ((rule no_lt_no_script, rule escape_no_lt) | code_simp))

lemma contact_header_no_script: "no_script (contact_header r)"
  unfolding contact_header_def
  by (intro no_script_if no_script_append no_script_LF;
      ((rule no_lt_no_script, rule escape_no_lt)
       | (rule no_lt_no_script, rule format_comma_no_lt)
       | (rule no_lt_no_script, rule join_no_lt, simp, rule contact_info_no_lt)
       | code_simp))

lemma fold_hit_blocks:
  "fold (\<lambda>hit html. html @ hit_block hit) hs html = html @ concat (map hit_block hs)"
  by (induction hs arbitrary: html) auto

lemma no_results_no_script: "no_script no_results"
  by code_simp

lemma contact_block_no_script: "no_script (contact_block r)"
  unfolding contact_block_def fold_hit_blocks
  by (intro no_script_if no_script_append no_script_LF contact_header_no_script
        no_results_no_script no_script_concat;
      ((simp add: list_all_iff hit_block_no_script; fail) | code_simp))

lemma html_content_no_script: "no_script (html_content results)"
  unfolding html_content_blocks
  by (intro no_script_append html_head_no_script html_footer_no_script str_int_no_lt
        no_script_concat)
     (simp add: list_all_iff contact_block_no_script)

lemma blank_empty: "(blank s = []) = (s = [])"
  by (simp add: blank_def)

lemma get_str_blank: "(get_str (map_option blank v) = []) = (get_str v = [])"
  by (cases v) (simp_all add: get_str_def blank_empty)

lemma truthy_blank: "truthy (map_option blank v) = truthy v"
  by (cases v) (simp_all add: truthy_def blank_empty)

lemma pdf_url_empty: "(hit_pdf_url h = []) = (get_str (file_path h) = [])"
  by (simp add: hit_pdf_url_def Let_def PDF_BASE_URL_def rstrip_slash_def)

lemma hit_link_markup:
  "filter markup (hit_link (blank_hit h)) = filter markup (hit_link h)"
  by (simp add: hit_link_def pdf_url_empty escape_no_markup blank_hit_def get_str_blank)

lemma hit_block_markup:
  "filter markup (hit_block (blank_hit h)) = filter markup (hit_block h)"
  by (simp add: hit_block_def hit_link_markup escape_no_markup)

lemma join_markup:
  "filter markup sep = [] \<Longrightarrow> \<forall>x\<in>set xs. filter markup x = [] \<Longrightarrow> filter markup (join sep xs) = []"
  by (induction sep xs rule: join.induct) auto

lemma contact_info_markup: "\<forall>x\<in>set (contact_info r). filter markup x = []"
  by (auto simp: contact_info_def escape_no_markup)

lemma contact_info_blank: "(contact_info (blank_result r) = []) = (contact_info r = [])"
  by (simp add: contact_info_def blank_result_def truthy_blank)

lemma contact_header_markup:
  "filter markup (contact_header (blank_result r)) = filter markup (contact_header r)"
proof -
  have j: "filter markup (join '' at '' (contact_info x)) = []" for x
    by (rule join_markup) (simp_all add: markup_def contact_info_markup)
  have t: "total_mentions (blank_result r) = total_mentions r"
    and n: "name (blank_result r) = blank (name r)"
    by (simp_all add: blank_result_def)
  show ?thesis
    by (simp add: contact_header_def escape_no_markup j t)
qed

lemma contact_block_markup:
  "filter markup (contact_block (blank_result r)) = filter markup (contact_block r)"
proof -
  have h: "hits (blank_result r) = map blank_hit (hits r)"
    by (simp add: blank_result_def)
  have "filter markup (concat (map hit_block (map blank_hit hs)))
          = filter markup (concat (map hit_block hs))" for hs
    by (induction hs) (simp_all add: hit_block_markup)
  then show ?thesis
    by (simp add: contact_block_def fold_hit_blocks contact_header_markup h)
qed

lemma html_content_markup:
  "filter markup (html_content (map blank_result rs)) = filter markup (html_content rs)"
proof -
  have t: "total_mentions (blank_result r) = total_mentions r" for r
    by (simp add: blank_result_def)
  have f: "filter (\<lambda>r. total_mentions r \<noteq> 0) (map blank_result rs)
             = map blank_result (filter (\<lambda>r. total_mentions r \<noteq> 0) rs)"
    by (simp add: filter_map comp_def t)
  have l: "length (filter (\<lambda>r. 0 < total_mentions r) (map blank_result rs))
             = length (filter (\<lambda>r. 0 < total_mentions r) rs)"
    by (simp add: filter_map comp_def t)
  have c: "filter markup (concat (map contact_block (map blank_result xs)))
             = filter markup (concat (map contact_block xs))" for xs
    by (induction xs) (simp_all add: contact_block_markup)
  show ?thesis
    unfolding html_content_blocks f l
    using c [of "filter (\<lambda>r. total_mentions r \<noteq> 0) rs"] by simp
qed

text \<open>
  C7: the output of \<^verbatim>\<open>html.escape\<close> holds none of the characters \<^verbatim>\<open><\<close>, \<^verbatim>\<open>>\<close>, \<^verbatim>\<open>"\<close> and
  \<^verbatim>\<open>'\<close>, and every text value of a result (name, position, company, previews, file paths
  and the links derived from them) reaches the document through it: replacing all of them
  by harmless texts leaves the markup characters of the document unchanged.  In particular
  no document holds a \<^verbatim>\<open><script\<close> tag, whatever the names and the other texts are.
\<close>

theorem text_values_escaped:
  "filter markup (html_escape s) = []
   \<and> filter markup (html_content (map blank_result results)) = filter markup (html_content results)
   \<and> \<not> sublist ''<script'' (html_content results)"
proof -
  have "sublist ''<sc'' ''<script''" by code_simp
  then have "sublist ''<sc'' (html_content results)" if "sublist ''<script'' (html_content results)"
    using that sublist_order.order_trans by blast
  moreover have "\<not> sublist ''<sc'' (html_content results)"
    using html_content_no_script [of results] by (simp add: no_script_def)
  ultimately show ?thesis
    by (auto simp: escape_no_markup html_content_markup)
qed

theorem text_values_escaped_witness:
  "html_escape (name obrien) = ''O&#x27;Brien &lt;script&gt;''
   \<and> filter markup (html_escape (name obrien)) = []
   \<and> \<not> sublist ''<script'' (html_content [obrien])"
proof -
  have "html_escape (name obrien) = ''O&#x27;Brien &lt;script&gt;''"
    by code_simp
  then show ?thesis
    using text_values_escaped [of "name obrien" "[obrien]"] by simp
qed

end
